theory Spec2Isabelle
  imports Complex_Main
begin

section \<open>Introspection metadata\<close>

text \<open>
  The enumerations of the introspection library that \<^verbatim>\<open>lgi.c\<close> switches over.
  Only their enumerators matter to the code, never their numeric values.
\<close>

datatype GITypeTag =
    GI_TYPE_TAG_VOID | GI_TYPE_TAG_BOOLEAN
  | GI_TYPE_TAG_INT8 | GI_TYPE_TAG_UINT8 | GI_TYPE_TAG_INT16 | GI_TYPE_TAG_UINT16
  | GI_TYPE_TAG_INT32 | GI_TYPE_TAG_UINT32 | GI_TYPE_TAG_INT64 | GI_TYPE_TAG_UINT64
  | GI_TYPE_TAG_SHORT | GI_TYPE_TAG_USHORT | GI_TYPE_TAG_INT | GI_TYPE_TAG_UINT
  | GI_TYPE_TAG_LONG | GI_TYPE_TAG_ULONG | GI_TYPE_TAG_SSIZE | GI_TYPE_TAG_SIZE
  | GI_TYPE_TAG_FLOAT | GI_TYPE_TAG_DOUBLE | GI_TYPE_TAG_TIME_T | GI_TYPE_TAG_GTYPE
  | GI_TYPE_TAG_UTF8 | GI_TYPE_TAG_FILENAME | GI_TYPE_TAG_ARRAY | GI_TYPE_TAG_INTERFACE
  | GI_TYPE_TAG_GLIST | GI_TYPE_TAG_GSLIST | GI_TYPE_TAG_GHASH | GI_TYPE_TAG_ERROR

datatype GIInfoType =
    GI_INFO_TYPE_INVALID | GI_INFO_TYPE_FUNCTION | GI_INFO_TYPE_CALLBACK
  | GI_INFO_TYPE_STRUCT | GI_INFO_TYPE_BOXED | GI_INFO_TYPE_ENUM | GI_INFO_TYPE_FLAGS
  | GI_INFO_TYPE_OBJECT | GI_INFO_TYPE_INTERFACE | GI_INFO_TYPE_CONSTANT
  | GI_INFO_TYPE_ERROR_DOMAIN | GI_INFO_TYPE_UNION | GI_INFO_TYPE_VALUE
  | GI_INFO_TYPE_SIGNAL | GI_INFO_TYPE_VFUNC | GI_INFO_TYPE_PROPERTY
  | GI_INFO_TYPE_FIELD | GI_INFO_TYPE_ARG | GI_INFO_TYPE_TYPE | GI_INFO_TYPE_UNRESOLVED

datatype GIDirection = GI_DIRECTION_IN | GI_DIRECTION_OUT | GI_DIRECTION_INOUT

text \<open>
  The C types of the members of the \<^verbatim>\<open>GArgument\<close> union: an integer type is its width
  in bits and its signedness. The widths are those of an LP64 platform
  (\<^verbatim>\<open>long\<close>, \<^verbatim>\<open>size_t\<close> and \<^verbatim>\<open>ptrdiff_t\<close> have 64 bits, \<^verbatim>\<open>int\<close> has 32).
\<close>

datatype ctype = C_int nat bool | C_float | C_double | C_pointer

definition gboolean :: ctype where "gboolean = C_int 32 True"
definition gint8 :: ctype where "gint8 = C_int 8 True"
definition guint8 :: ctype where "guint8 = C_int 8 False"
definition gint16 :: ctype where "gint16 = C_int 16 True"
definition guint16 :: ctype where "guint16 = C_int 16 False"
definition gint32 :: ctype where "gint32 = C_int 32 True"
definition guint32 :: ctype where "guint32 = C_int 32 False"
definition gint64 :: ctype where "gint64 = C_int 64 True"
definition guint64 :: ctype where "guint64 = C_int 64 False"
definition gshort :: ctype where "gshort = C_int 16 True"
definition gushort :: ctype where "gushort = C_int 16 False"
definition gint :: ctype where "gint = C_int 32 True"
definition guint :: ctype where "guint = C_int 32 False"
definition glong :: ctype where "glong = C_int 64 True"
definition gulong :: ctype where "gulong = C_int 64 False"
definition gssize :: ctype where "gssize = C_int 64 True"
definition gsize :: ctype where "gsize = C_int 64 False"
definition GType :: ctype where "GType = C_int 64 False"
definition gfloat :: ctype where "gfloat = C_float"
definition gdouble :: ctype where "gdouble = C_double"
definition gpointer :: ctype where "gpointer = C_pointer"
definition lua_Integer :: ctype where "lua_Integer = C_int 64 True"

text \<open>
  Metadata, values and pointers refer to each other: a type of tag
  \<^verbatim>\<open>INTERFACE\<close> names another descriptor, a constant descriptor holds its literal as a
  \<^verbatim>\<open>GArgument\<close>, a \<^verbatim>\<open>GArgument\<close> may hold a pointer, and \<^verbatim>\<open>lgi_find\<close> hands a
  descriptor out as the address of a structure.

  A pointer is a region and a byte offset into it. \<open>Abs\<close> is native memory (the null
  pointer is offset 0 of it), \<open>UdData n\<close> the \<^verbatim>\<open>data\<close> member of the userdata number \<open>n\<close>,
  \<open>Str s\<close> a NUL-terminated C string with the bytes \<open>s\<close>, \<open>Info i\<close> the descriptor \<open>i\<close>
  and \<open>ErrVar\<close> the local variable \<^verbatim>\<open>err\<close> of \<^verbatim>\<open>function_call\<close>.

  A \<^verbatim>\<open>GArgument\<close> is the member type it was last written through and the value
  written, or \<open>Indeterminate\<close> when it was never written.
\<close>

datatype GITypeInfo = GITypeInfo (ti_tag: GITypeTag) (ti_interface: "GIBaseInfo option")
and GIBaseInfo =
  GIBaseInfo (bi_namespace: string) (bi_name: string)
             (bi_container: "GIBaseInfo option") (bi_data: info_data)
and info_data =
    FunctionData (fn_is_method: bool) (fn_is_constructor: bool) (fn_throws: bool)
                 (fn_args: "GIArgInfo list") (fn_return: GITypeInfo)
                 (fn_symbol: "(string \<times> int) + nat")
  | StructData (st_size: nat) (st_fields: "GIFieldInfo list") (st_methods: "GIBaseInfo list")
  | ObjectData (ob_methods: "GIBaseInfo list")
  | InterfaceData (if_methods: "GIBaseInfo list")
  | EnumData (en_storage: GITypeTag)
  | ConstantData (co_type: GITypeInfo) (co_value: GArgument)
  | OtherData (ot_type: GIInfoType)
and GIArgInfo =
  GIArgInfo (ai_direction: GIDirection) (ai_optional: bool) (ai_may_be_null: bool)
            (ai_caller_allocates: bool) (ai_type: GITypeInfo)
and GIFieldInfo =
  GIFieldInfo (fi_name: string) (fi_readable: bool) (fi_writable: bool)
              (fi_offset: nat) (fi_type: GITypeInfo)
and region = Abs | UdData nat | Str string | Info GIBaseInfo | ErrVar
and cval = CInt int | CReal rat | CPtr region nat
and GArgument = GArg ctype cval | Indeterminate

type_synonym pointer = "region \<times> nat"

definition NULL :: pointer where "NULL = (Abs, 0)"


text \<open>The members of the \<^verbatim>\<open>GArgument\<close> union, each with its C type.\<close>

definition v_boolean :: ctype where "v_boolean = gboolean"
definition v_int8 :: ctype where "v_int8 = gint8"
definition v_uint8 :: ctype where "v_uint8 = guint8"
definition v_int16 :: ctype where "v_int16 = gint16"
definition v_uint16 :: ctype where "v_uint16 = guint16"
definition v_int32 :: ctype where "v_int32 = gint32"
definition v_uint32 :: ctype where "v_uint32 = guint32"
definition v_int64 :: ctype where "v_int64 = gint64"
definition v_uint64 :: ctype where "v_uint64 = guint64"
definition v_float :: ctype where "v_float = gfloat"
definition v_double :: ctype where "v_double = gdouble"
definition v_short :: ctype where "v_short = gshort"
definition v_ushort :: ctype where "v_ushort = gushort"
definition v_int :: ctype where "v_int = gint"
definition v_uint :: ctype where "v_uint = guint"
definition v_long :: ctype where "v_long = glong"
definition v_ulong :: ctype where "v_ulong = gulong"
definition v_ssize :: ctype where "v_ssize = gssize"
definition v_size :: ctype where "v_size = gsize"
definition v_pointer :: ctype where "v_pointer = gpointer"

section \<open>C conversions\<close>

text \<open>
  A finite \<^verbatim>\<open>float\<close> or \<^verbatim>\<open>double\<close> is the rational number it denotes. Converting an
  integer to a floating type with \<open>p\<close> bits of precision rounds to the nearest
  representable value, ties to even; every 64-bit integer is in the range of both types.
\<close>

fun bits :: "nat \<Rightarrow> nat" where
  "bits n = (if n = 0 then 0 else Suc (bits (n div 2)))"

definition round_int :: "nat \<Rightarrow> int \<Rightarrow> int" where
  "round_int p n =
     (let a = nat \<bar>n\<bar>; l = bits a in
      if l \<le> p then n
      else let e = l - p; q = a div 2 ^ e; r = a mod 2 ^ e; h = 2 ^ (e - 1);
               q' = (if h < r \<or> (r = h \<and> odd q) then q + 1 else q)
           in sgn n * int (q' * 2 ^ e))"

definition wrap_int :: "nat \<Rightarrow> bool \<Rightarrow> int \<Rightarrow> int" where
  "wrap_int w sg n =
     (if sg then (n + 2 ^ (w - 1)) mod 2 ^ w - 2 ^ (w - 1) else n mod 2 ^ w)"

definition in_range :: "nat \<Rightarrow> bool \<Rightarrow> int \<Rightarrow> bool" where
  "in_range w sg n =
     (if sg then - (2 ^ (w - 1)) \<le> n \<and> n < 2 ^ (w - 1) else 0 \<le> n \<and> n < 2 ^ w)"

definition trunc :: "rat \<Rightarrow> int" where
  "trunc q = (if 0 \<le> q then \<lfloor>q\<rfloor> else \<lceil>q\<rceil>)"

text \<open>
  \<open>c_convert t v\<close> is the value \<open>v\<close> converted to the C type \<open>t\<close>, by a cast or by an
  assignment or argument passing. \<open>None\<close> is a conversion whose result C leaves
  undefined (a floating value outside the range of the integer type), or one that no
  statement of the program performs (pointer to number, number other than the constant 0
  to pointer). The only floating value the program converts to \<^verbatim>\<open>float\<close> is the result
  of a cast to \<^verbatim>\<open>gfloat\<close>, assigned to the member \<^verbatim>\<open>v_float\<close>: it is a \<^verbatim>\<open>float\<close>
  already and the conversion leaves it as it is.
\<close>

fun c_convert :: "ctype \<Rightarrow> cval \<Rightarrow> cval option" where
  "c_convert (C_int w sg) (CInt n) = Some (CInt (wrap_int w sg n))"
| "c_convert (C_int w sg) (CReal q) =
     (if in_range w sg (trunc q) then Some (CInt (trunc q)) else None)"
| "c_convert C_double (CInt n) = Some (CReal (of_int (round_int 53 n)))"
| "c_convert C_double (CReal q) = Some (CReal q)"
| "c_convert C_float (CInt n) = Some (CReal (of_int (round_int 24 n)))"
| "c_convert C_float (CReal q) = Some (CReal q)"
| "c_convert C_pointer (CPtr r off) = Some (CPtr r off)"
| "c_convert C_pointer (CInt n) = (if n = 0 then Some (CPtr Abs 0) else None)"
| "c_convert _ _ = None"

text \<open>
  Reading a member of the union gives the value written when it was written through a
  member of the same C type; any other read is of bits the model does not describe.
\<close>

fun read_member :: "ctype \<Rightarrow> GArgument \<Rightarrow> cval option" where
  "read_member t (GArg t' v) = (if t = t' then Some v else None)"
| "read_member t Indeterminate = None"

section \<open>The Lua state\<close>

datatype lua_value =
  LNil | LBoolean bool | LNumber rat | LString string | LUserdata nat

text \<open>
  A userdata block: the name of its metatable and the members of
  \<^verbatim>\<open>struct ud_struct\<close> or \<^verbatim>\<open>struct ud_function\<close> (of the invoker, its native address).
  \<open>us_data_size\<close> is the number of bytes allocated for the member \<^verbatim>\<open>data\<close>, that is
  the size passed to \<^verbatim>\<open>lua_newuserdata\<close> less the offset of \<^verbatim>\<open>data\<close>.
\<close>

datatype udata =
    Ud_struct (us_info: GIBaseInfo) (us_addr: pointer) (us_data_size: nat)
  | Ud_function (uf_native_address: pointer) (uf_info: GIBaseInfo)

record userdata =
  ud_meta :: string
  ud_body :: udata

definition UD_STRUCT :: string where "UD_STRUCT = ''lgi.struct''"
definition UD_FUNCTION :: string where "UD_FUNCTION = ''lgi.function''"

text \<open>
  The state the code works on: the Lua stack (bottom first; index \<open>i\<close> of the C API is
  element \<open>i - 1\<close>), the userdata blocks by number, the cache table of the registry
  (light userdata keys), and native memory as the \<^verbatim>\<open>GArgument\<close> readable at each address.
\<close>

record world =
  stack :: "lua_value list"
  heap :: "nat \<rightharpoonup> userdata"
  next_ud :: nat
  cache :: "pointer \<rightharpoonup> lua_value"
  mem :: "pointer \<Rightarrow> GArgument"

text \<open>
  How an operation ends. \<open>LuaError\<close> is \<^verbatim>\<open>lua_error\<close> with that message, \<open>ArgError\<close> is
  \<^verbatim>\<open>luaL_argerror\<close> on that argument; both unwind to the caller's protected call.
  \<open>Undefined\<close> is behaviour C leaves undefined (a null dereference, a read of memory
  never written).
\<close>

datatype failure = LuaError string | ArgError nat string | Undefined string

datatype 'a outcome = Return 'a world | Throw failure world

definition bnd :: "'a outcome \<Rightarrow> ('a \<Rightarrow> world \<Rightarrow> 'b outcome) \<Rightarrow> 'b outcome" where
  "bnd m f = (case m of Return a w \<Rightarrow> f a w | Throw e w \<Rightarrow> Throw e w)"

text \<open>
  The two conversions between numbers and strings that Lua's coercions use
  (\<^verbatim>\<open>lua_number2str\<close>, \<^verbatim>\<open>luaO_str2d\<close>) belong to the Lua library; the code is modelled
  for any pair of them.
\<close>

record lua_conv =
  number2str :: "rat \<Rightarrow> string"
  str2d :: "string \<Rightarrow> rat option"

definition lua_push :: "lua_value \<Rightarrow> world \<Rightarrow> world" where
  "lua_push v w = w\<lparr>stack := stack w @ [v]\<rparr>"

definition lua_index :: "world \<Rightarrow> nat \<Rightarrow> lua_value option" where
  "lua_index w i = (if 1 \<le> i \<and> i \<le> length (stack w) then Some (stack w ! (i - 1)) else None)"

definition lua_isnoneornil :: "world \<Rightarrow> nat \<Rightarrow> bool" where
  "lua_isnoneornil w i = (case lua_index w i of None \<Rightarrow> True | Some LNil \<Rightarrow> True | _ \<Rightarrow> False)"

definition lua_toboolean :: "world \<Rightarrow> nat \<Rightarrow> int" where
  "lua_toboolean w i =
     (case lua_index w i of None \<Rightarrow> 0 | Some LNil \<Rightarrow> 0 | Some (LBoolean b) \<Rightarrow> (if b then 1 else 0)
      | _ \<Rightarrow> 1)"

definition luaL_typename :: "world \<Rightarrow> nat \<Rightarrow> string" where
  "luaL_typename w i =
     (case lua_index w i of None \<Rightarrow> ''no value'' | Some LNil \<Rightarrow> ''nil''
      | Some (LBoolean b) \<Rightarrow> ''boolean'' | Some (LNumber n) \<Rightarrow> ''number''
      | Some (LString s) \<Rightarrow> ''string'' | Some (LUserdata u) \<Rightarrow> ''userdata'')"

definition luaL_typerror :: "world \<Rightarrow> nat \<Rightarrow> string \<Rightarrow> 'a outcome" where
  "luaL_typerror w i tname = Throw (ArgError i (tname @ '' expected, got '' @ luaL_typename w i)) w"


definition lua_number2integer :: "rat \<Rightarrow> world \<Rightarrow> int outcome" where
  "lua_number2integer d w =
     (case c_convert lua_Integer (CReal d) of
        Some (CInt n) \<Rightarrow> Return n w
      | _ \<Rightarrow> Throw (Undefined ''number out of the range of lua_Integer'') w)"

definition luaL_checknumber :: "lua_conv \<Rightarrow> world \<Rightarrow> nat \<Rightarrow> rat outcome" where
  "luaL_checknumber cv w i =
     (case lua_index w i of
        Some (LNumber d) \<Rightarrow> Return d w
      | Some (LString s) \<Rightarrow>
          (case str2d cv s of Some d \<Rightarrow> Return d w | None \<Rightarrow> luaL_typerror w i ''number'')
      | _ \<Rightarrow> luaL_typerror w i ''number'')"

definition luaL_checkinteger :: "lua_conv \<Rightarrow> world \<Rightarrow> nat \<Rightarrow> int outcome" where
  "luaL_checkinteger cv w i = bnd (luaL_checknumber cv w i) lua_number2integer"

text \<open>\<^verbatim>\<open>lua_tolstring\<close> turns a number on the stack into a string in place.\<close>

definition luaL_checkstring :: "lua_conv \<Rightarrow> world \<Rightarrow> nat \<Rightarrow> pointer outcome" where
  "luaL_checkstring cv w i =
     (case lua_index w i of
        Some (LString s) \<Rightarrow> Return (Str s, 0) w
      | Some (LNumber d) \<Rightarrow>
          Return (Str (number2str cv d), 0)
                 (w\<lparr>stack := (stack w)[i - 1 := LString (number2str cv d)]\<rparr>)
      | _ \<Rightarrow> luaL_typerror w i ''string'')"

definition luaL_checkudata :: "world \<Rightarrow> nat \<Rightarrow> string \<Rightarrow> udata outcome" where
  "luaL_checkudata w i tname =
     (case lua_index w i of
        Some (LUserdata u) \<Rightarrow>
          (case heap w u of
             Some d \<Rightarrow> if ud_meta d = tname then Return (ud_body d) w else luaL_typerror w i tname
           | None \<Rightarrow> Throw (Undefined ''userdata already freed'') w)
      | _ \<Rightarrow> luaL_typerror w i tname)"

definition lua_pushboolean :: "int \<Rightarrow> world \<Rightarrow> world" where
  "lua_pushboolean b w = lua_push (LBoolean (b \<noteq> 0)) w"

definition lua_pushinteger :: "int \<Rightarrow> world \<Rightarrow> world" where
  "lua_pushinteger n w = lua_push (LNumber (of_int (round_int 53 n))) w"

definition lua_pushnumber :: "rat \<Rightarrow> world \<Rightarrow> world" where
  "lua_pushnumber d w = lua_push (LNumber d) w"

text \<open>The bytes of a C string: those before the first NUL.\<close>

definition c_str :: "string \<Rightarrow> string" where
  "c_str s = takeWhile (\<lambda>c. c \<noteq> CHR 0x00) s"

definition lua_pushstring :: "pointer \<Rightarrow> world \<Rightarrow> unit outcome" where
  "lua_pushstring p w =
     (case p of
        (Abs, off) \<Rightarrow>
          if off = 0 then Return () (lua_push LNil w)
          else Throw (Undefined ''string read from memory never written'') w
      | (Str s, off) \<Rightarrow>
          Return () (lua_push (LString (c_str (drop off s))) w)
      | _ \<Rightarrow> Throw (Undefined ''string read from memory never written'') w)"

text \<open>The conversion \<^verbatim>\<open>%d\<close> of \<^verbatim>\<open>lua_pushfstring\<close>: decimal digits, a sign when negative.\<close>

fun dec_digits :: "nat \<Rightarrow> string \<Rightarrow> string" where
  "dec_digits n acc =
     (let acc1 = (''0123456789'' ! (n mod 10)) # acc
      in if n div 10 = 0 then acc1 else dec_digits (n div 10) acc1)"

definition fmt_d :: "int \<Rightarrow> string" where
  "fmt_d i = (if 0 \<le> i then dec_digits (nat i) [] else CHR ''-'' # dec_digits (nat (- i)) [])"

section \<open>Errors of the native side\<close>

record GError =
  message :: string
  code :: int

definition lgi_error :: "world \<Rightarrow> GError option \<Rightarrow> nat outcome" where
  "lgi_error w err =
     (let w1 = lua_pushboolean 0 w in
      case err of
        Some e \<Rightarrow>
          bnd (lua_pushstring (Str (message e), 0) w1)
              (\<lambda>_ w2. Return 3 (lua_pushinteger (code e) w2))
      | None \<Rightarrow> Return 1 w1)"

definition lgi_throw :: "world \<Rightarrow> GError option \<Rightarrow> 'a outcome" where
  "lgi_throw w err =
     (case err of
        Some e \<Rightarrow> Throw (LuaError (message e @ '' ('' @ fmt_d (code e) @ '')'')) w
      | None \<Rightarrow> Throw (LuaError ''unspecified GError-NULL'') w)"

section \<open>The cache\<close>

definition lgi_get_cached :: "world \<Rightarrow> pointer \<Rightarrow> nat outcome" where
  "lgi_get_cached w obj =
     (case cache w obj of
        None \<Rightarrow> Return 0 w
      | Some v \<Rightarrow> if v = LNil then Return 0 w else Return 1 (lua_push v w))"

definition lgi_set_cached :: "world \<Rightarrow> pointer \<Rightarrow> unit outcome" where
  "lgi_set_cached w obj =
     (case rev (stack w) of
        [] \<Rightarrow> Throw (Undefined ''no value on the stack'') w
      | v # _ \<Rightarrow> Return () (w\<lparr>cache := (cache w)(obj \<mapsto> v)\<rparr>))"


section \<open>Queries on the metadata\<close>

definition g_base_info_get_type :: "GIBaseInfo \<Rightarrow> GIInfoType" where
  "g_base_info_get_type i =
     (case bi_data i of
        FunctionData m c t as r sy \<Rightarrow> GI_INFO_TYPE_FUNCTION
      | StructData sz fs ms \<Rightarrow> GI_INFO_TYPE_STRUCT
      | ObjectData ms \<Rightarrow> GI_INFO_TYPE_OBJECT
      | InterfaceData ms \<Rightarrow> GI_INFO_TYPE_INTERFACE
      | EnumData t \<Rightarrow> GI_INFO_TYPE_ENUM
      | ConstantData t v \<Rightarrow> GI_INFO_TYPE_CONSTANT
      | OtherData t \<Rightarrow> t)"

definition g_struct_info_get_size :: "GIBaseInfo \<Rightarrow> nat option" where
  "g_struct_info_get_size i = (case bi_data i of StructData sz fs ms \<Rightarrow> Some sz | _ \<Rightarrow> None)"

definition g_struct_info_get_fields :: "GIBaseInfo \<Rightarrow> GIFieldInfo list option" where
  "g_struct_info_get_fields i = (case bi_data i of StructData sz fs ms \<Rightarrow> Some fs | _ \<Rightarrow> None)"

definition g_enum_info_get_storage_type :: "GIBaseInfo \<Rightarrow> GITypeTag option" where
  "g_enum_info_get_storage_type i = (case bi_data i of EnumData t \<Rightarrow> Some t | _ \<Rightarrow> None)"

definition find_method :: "GIBaseInfo list \<Rightarrow> string \<Rightarrow> GIBaseInfo option" where
  "find_method ms symbol = find (\<lambda>m. bi_name m = symbol) ms"

definition g_struct_info_find_method :: "GIBaseInfo \<Rightarrow> string \<Rightarrow> GIBaseInfo option" where
  "g_struct_info_find_method i symbol =
     (case bi_data i of StructData sz fs ms \<Rightarrow> find_method ms symbol | _ \<Rightarrow> None)"

definition g_object_info_find_method :: "GIBaseInfo \<Rightarrow> string \<Rightarrow> GIBaseInfo option" where
  "g_object_info_find_method i symbol =
     (case bi_data i of ObjectData ms \<Rightarrow> find_method ms symbol | _ \<Rightarrow> None)"

definition g_interface_info_find_method :: "GIBaseInfo \<Rightarrow> string \<Rightarrow> GIBaseInfo option" where
  "g_interface_info_find_method i symbol =
     (case bi_data i of InterfaceData ms \<Rightarrow> find_method ms symbol | _ \<Rightarrow> None)"

text \<open>The descriptor a pointer refers to, when it points at one.\<close>

definition info_at :: "pointer \<Rightarrow> GIBaseInfo option" where
  "info_at p = (case p of (Info i, off) \<Rightarrow> if off = 0 then Some i else None | _ \<Rightarrow> None)"

text \<open>The bytes of the C string at a pointer, up to its terminating NUL.\<close>

definition c_string :: "pointer \<Rightarrow> string option" where
  "c_string p =
     (case p of (Str s, off) \<Rightarrow> Some (c_str (drop off s)) | _ \<Rightarrow> None)"

definition ptr_val :: "pointer \<Rightarrow> cval" where
  "ptr_val p = CPtr (fst p) (snd p)"

definition read_pointer :: "GArgument \<Rightarrow> pointer option" where
  "read_pointer a = (case read_member v_pointer a of Some (CPtr r off) \<Rightarrow> Some (r, off) | _ \<Rightarrow> None)"

section \<open>Structure wrappers: creation\<close>

text \<open>
  \<^verbatim>\<open>struct_new\<close>. The C parameter \<^verbatim>\<open>newaddr\<close> is either null or the place the address
  of the new storage is written to: here a flag, and the address written is returned
  with the number of values pushed.
\<close>

definition struct_new ::
  "world \<Rightarrow> GIBaseInfo \<Rightarrow> pointer \<Rightarrow> bool \<Rightarrow> (nat \<times> pointer option) outcome" where
  "struct_new w info addr newaddr =
     bnd (if \<not> newaddr \<and> addr = NULL then Return 1 (lua_push LNil w)
          else lgi_get_cached w addr)
       (\<lambda>vals w1.
          if vals = 0 then
            (case (if newaddr then g_struct_info_get_size info else Some 0) of
               None \<Rightarrow> Throw (Undefined ''size of a descriptor that is no structure'') w1
             | Some sz \<Rightarrow>
                 let u = next_ud w1;
                     a = (if newaddr then (UdData u, 0) else addr);
                     w2 = w1\<lparr>heap := (heap w1)(u \<mapsto>
                                \<lparr>ud_meta = UD_STRUCT, ud_body = Ud_struct info a sz\<rparr>),
                             next_ud := Suc u\<rparr>
                 in Return (1, if newaddr then Some a else None) (lua_push (LUserdata u) w2))
          else Return (vals, None) w1)"

section \<open>Callable wrappers: creation\<close>

text \<open>
  \<^verbatim>\<open>function_new\<close>. \<open>fn_symbol\<close> of the metadata is what
  \<^verbatim>\<open>g_function_info_prep_invoker\<close> finds: the native address, or the error it fails
  with. When it fails, the block just allocated stays on the stack with an invoker
  that was never prepared; the model gives it no contents.
\<close>

definition lua_replace_2 :: "world \<Rightarrow> world" where
  "lua_replace_2 w =
     (let st = stack w; n = length st in w\<lparr>stack := (butlast st)[n - 2 := last st]\<rparr>)"

definition function_new :: "world \<Rightarrow> GIBaseInfo \<Rightarrow> nat outcome" where
  "function_new w info =
     (let u = next_ud w in
      case bi_data info of
        FunctionData m c t as r sy \<Rightarrow>
          (case sy of
             Inl e \<Rightarrow>
               lgi_throw (lua_push (LUserdata u) (w\<lparr>next_ud := Suc u\<rparr>))
                         (Some \<lparr>message = fst e, code = snd e\<rparr>)
           | Inr a \<Rightarrow>
               let w1 = lua_push (LUserdata u)
                          (w\<lparr>heap := (heap w)(u \<mapsto>
                               \<lparr>ud_meta = UD_FUNCTION, ud_body = Ud_function (Abs, a) info\<rparr>),
                             next_ud := Suc u\<rparr>)
               in bnd (lgi_get_cached w1 (Abs, a))
                    (\<lambda>hit w2.
                       if hit = 1 then Return 1 (lua_replace_2 w2)
                       else bnd (lgi_set_cached w2 (Abs, a)) (\<lambda>_ w3. Return 1 w3)))
      | _ \<Rightarrow> Throw (Undefined ''invoker of a descriptor that is no function'') w)"

section \<open>The value marshaler\<close>

text \<open>
  The rows of the two \<^verbatim>\<open>TYPE_CASE\<close> tables: the C type, the member of the union, and
  the function of the Lua API that pushes or fetches the value.
\<close>

datatype push_fn = Push_boolean | Push_integer | Push_number | Push_string

datatype check_fn = To_boolean | Check_integer | Check_number | Check_string

definition to_lua_case :: "GITypeTag \<Rightarrow> (ctype \<times> ctype \<times> push_fn) option" where
  "to_lua_case tag =
     (case tag of
        GI_TYPE_TAG_BOOLEAN \<Rightarrow> Some (gboolean, v_boolean, Push_boolean)
      | GI_TYPE_TAG_INT8 \<Rightarrow> Some (gint8, v_int8, Push_integer)
      | GI_TYPE_TAG_UINT8 \<Rightarrow> Some (guint8, v_uint8, Push_integer)
      | GI_TYPE_TAG_INT16 \<Rightarrow> Some (gint16, v_int16, Push_integer)
      | GI_TYPE_TAG_UINT16 \<Rightarrow> Some (guint16, v_uint16, Push_integer)
      | GI_TYPE_TAG_INT32 \<Rightarrow> Some (gint32, v_int32, Push_integer)
      | GI_TYPE_TAG_UINT32 \<Rightarrow> Some (guint32, v_uint32, Push_integer)
      | GI_TYPE_TAG_INT64 \<Rightarrow> Some (gint64, v_int64, Push_number)
      | GI_TYPE_TAG_UINT64 \<Rightarrow> Some (guint64, v_uint64, Push_number)
      | GI_TYPE_TAG_FLOAT \<Rightarrow> Some (gfloat, v_float, Push_integer)
      | GI_TYPE_TAG_DOUBLE \<Rightarrow> Some (gdouble, v_double, Push_integer)
      | GI_TYPE_TAG_SHORT \<Rightarrow> Some (gshort, v_short, Push_integer)
      | GI_TYPE_TAG_USHORT \<Rightarrow> Some (gushort, v_ushort, Push_integer)
      | GI_TYPE_TAG_INT \<Rightarrow> Some (gint, v_int, Push_integer)
      | GI_TYPE_TAG_UINT \<Rightarrow> Some (guint, v_uint, Push_integer)
      | GI_TYPE_TAG_LONG \<Rightarrow> Some (glong, v_long, Push_integer)
      | GI_TYPE_TAG_ULONG \<Rightarrow> Some (gulong, v_ulong, Push_integer)
      | GI_TYPE_TAG_SSIZE \<Rightarrow> Some (gssize, v_ssize, Push_integer)
      | GI_TYPE_TAG_SIZE \<Rightarrow> Some (gsize, v_size, Push_integer)
      | GI_TYPE_TAG_GTYPE \<Rightarrow> Some (GType, v_long, Push_integer)
      | GI_TYPE_TAG_UTF8 \<Rightarrow> Some (gpointer, v_pointer, Push_string)
      | GI_TYPE_TAG_FILENAME \<Rightarrow> Some (gpointer, v_pointer, Push_string)
      | _ \<Rightarrow> None)"

definition from_lua_case :: "GITypeTag \<Rightarrow> (ctype \<times> ctype \<times> check_fn) option" where
  "from_lua_case tag =
     (case tag of
        GI_TYPE_TAG_BOOLEAN \<Rightarrow> Some (gboolean, v_boolean, To_boolean)
      | GI_TYPE_TAG_INT8 \<Rightarrow> Some (gint8, v_int8, Check_integer)
      | GI_TYPE_TAG_UINT8 \<Rightarrow> Some (guint8, v_uint8, Check_integer)
      | GI_TYPE_TAG_INT16 \<Rightarrow> Some (gint16, v_int16, Check_integer)
      | GI_TYPE_TAG_UINT16 \<Rightarrow> Some (guint16, v_uint16, Check_integer)
      | GI_TYPE_TAG_INT32 \<Rightarrow> Some (gint32, v_int32, Check_integer)
      | GI_TYPE_TAG_UINT32 \<Rightarrow> Some (guint32, v_uint32, Check_integer)
      | GI_TYPE_TAG_INT64 \<Rightarrow> Some (gint64, v_int64, Check_number)
      | GI_TYPE_TAG_UINT64 \<Rightarrow> Some (guint64, v_uint64, Check_number)
      | GI_TYPE_TAG_FLOAT \<Rightarrow> Some (gfloat, v_float, Check_integer)
      | GI_TYPE_TAG_DOUBLE \<Rightarrow> Some (gdouble, v_double, Check_integer)
      | GI_TYPE_TAG_SHORT \<Rightarrow> Some (gshort, v_short, Check_integer)
      | GI_TYPE_TAG_USHORT \<Rightarrow> Some (gushort, v_ushort, Check_integer)
      | GI_TYPE_TAG_INT \<Rightarrow> Some (gint, v_int, Check_integer)
      | GI_TYPE_TAG_UINT \<Rightarrow> Some (guint, v_uint, Check_integer)
      | GI_TYPE_TAG_LONG \<Rightarrow> Some (glong, v_long, Check_integer)
      | GI_TYPE_TAG_ULONG \<Rightarrow> Some (gulong, v_ulong, Check_integer)
      | GI_TYPE_TAG_SSIZE \<Rightarrow> Some (gssize, v_ssize, Check_integer)
      | GI_TYPE_TAG_SIZE \<Rightarrow> Some (gsize, v_size, Check_integer)
      | GI_TYPE_TAG_GTYPE \<Rightarrow> Some (GType, v_long, Check_integer)
      | GI_TYPE_TAG_UTF8 \<Rightarrow> Some (gpointer, v_pointer, Check_string)
      | GI_TYPE_TAG_FILENAME \<Rightarrow> Some (gpointer, v_pointer, Check_string)
      | _ \<Rightarrow> None)"

text \<open>
  \<^verbatim>\<open>push(L, val->member)\<close>: the member is read and converted to the parameter type of
  the pushing function.
\<close>

definition call_push :: "push_fn \<Rightarrow> cval \<Rightarrow> world \<Rightarrow> nat outcome" where
  "call_push push v w =
     (case push of
        Push_boolean \<Rightarrow>
          (case c_convert gint v of
             Some (CInt b) \<Rightarrow> Return 1 (lua_pushboolean b w)
           | _ \<Rightarrow> Throw (Undefined ''conversion to int'') w)
      | Push_integer \<Rightarrow>
          (case c_convert lua_Integer v of
             Some (CInt n) \<Rightarrow> Return 1 (lua_pushinteger n w)
           | _ \<Rightarrow> Throw (Undefined ''conversion to lua_Integer'') w)
      | Push_number \<Rightarrow>
          (case c_convert gdouble v of
             Some (CReal d) \<Rightarrow> Return 1 (lua_pushnumber d w)
           | _ \<Rightarrow> Throw (Undefined ''conversion to lua_Number'') w)
      | Push_string \<Rightarrow>
          (case c_convert gpointer v of
             Some (CPtr r off) \<Rightarrow> bnd (lua_pushstring (r, off) w) (\<lambda>_ w1. Return 1 w1)
           | _ \<Rightarrow> Throw (Undefined ''conversion to a pointer'') w))"

definition lgi_simple_val_to_lua :: "world \<Rightarrow> GITypeTag \<Rightarrow> GArgument \<Rightarrow> nat outcome" where
  "lgi_simple_val_to_lua w tag val =
     (case to_lua_case tag of
        Some (ty, member, push) \<Rightarrow>
          (case read_member member val of
             Some v \<Rightarrow> call_push push v w
           | None \<Rightarrow> Throw (Undefined ''read of a member never written'') w)
      | None \<Rightarrow> Return 0 w)"

definition lgi_val_to_lua :: "world \<Rightarrow> GITypeInfo \<Rightarrow> GArgument \<Rightarrow> nat outcome" where
  "lgi_val_to_lua w ti val =
     (let tag = ti_tag ti in
      bnd (lgi_simple_val_to_lua w tag val)
        (\<lambda>pushed w1.
           if pushed = 0 then
             (case tag of
                GI_TYPE_TAG_INTERFACE \<Rightarrow>
                  (case ti_interface ti of
                     None \<Rightarrow> Throw (Undefined ''null descriptor'') w1
                   | Some ii \<Rightarrow>
                       (case g_base_info_get_type ii of
                          GI_INFO_TYPE_ENUM \<Rightarrow>
                            (case g_enum_info_get_storage_type ii of
                               Some st \<Rightarrow> lgi_simple_val_to_lua w1 st val
                             | None \<Rightarrow> Throw (Undefined ''storage type of no enumeration'') w1)
                        | GI_INFO_TYPE_STRUCT \<Rightarrow>
                            (case read_pointer val of
                               Some p \<Rightarrow>
                                 bnd (struct_new w1 ii p False) (\<lambda>r w2. Return (fst r) w2)
                             | None \<Rightarrow> Throw (Undefined ''read of a member never written'') w1)
                        | _ \<Rightarrow> Return 0 w1))
              | _ \<Rightarrow> Return 0 w1)
           else Return pushed w1))"

text \<open>
  \<^verbatim>\<open>val->member = (type)((optional && lua_isnoneornil(L, index)) ? 0 : expr)\<close>: the
  fetching function runs only when the value is required or present.
\<close>

definition call_check :: "lua_conv \<Rightarrow> check_fn \<Rightarrow> world \<Rightarrow> nat \<Rightarrow> cval outcome" where
  "call_check cv chk w index =
     (case chk of
        To_boolean \<Rightarrow> Return (CInt (lua_toboolean w index)) w
      | Check_integer \<Rightarrow> bnd (luaL_checkinteger cv w index) (\<lambda>n w1. Return (CInt n) w1)
      | Check_number \<Rightarrow> bnd (luaL_checknumber cv w index) (\<lambda>d w1. Return (CReal d) w1)
      | Check_string \<Rightarrow> bnd (luaL_checkstring cv w index) (\<lambda>p w1. Return (ptr_val p) w1))"

definition assign_member :: "ctype \<Rightarrow> ctype \<Rightarrow> cval \<Rightarrow> world \<Rightarrow> (nat \<times> GArgument) outcome" where
  "assign_member ty member v w =
     (case Option.bind (c_convert ty v) (c_convert member) of
        Some v' \<Rightarrow> Return (1, GArg member v') w
      | None \<Rightarrow> Throw (Undefined ''conversion out of range'') w)"

definition lgi_val_from_lua ::
  "lua_conv \<Rightarrow> world \<Rightarrow> nat \<Rightarrow> GITypeInfo \<Rightarrow> GArgument \<Rightarrow> bool \<Rightarrow> (nat \<times> GArgument) outcome" where
  "lgi_val_from_lua cv w index ti val optional =
     (case from_lua_case (ti_tag ti) of
        Some (ty, member, chk) \<Rightarrow>
          if optional \<and> lua_isnoneornil w index then assign_member ty member (CInt 0) w
          else bnd (call_check cv chk w index) (assign_member ty member)
      | None \<Rightarrow>
          (case ti_tag ti of
             GI_TYPE_TAG_INTERFACE \<Rightarrow>
               (case ti_interface ti of
                  None \<Rightarrow> Throw (Undefined ''null descriptor'') w
                | Some ii \<Rightarrow>
                    (case g_base_info_get_type ii of
                       GI_INFO_TYPE_STRUCT \<Rightarrow>
                         if optional \<and> lua_isnoneornil w index
                         then Return (1, GArg v_pointer (ptr_val NULL)) w
                         else bnd (luaL_checkudata w index UD_STRUCT)
                                (\<lambda>ud w1.
                                   case ud of
                                     Ud_struct info addr sz \<Rightarrow>
                                       Return (1, GArg v_pointer (ptr_val addr)) w1
                                   | _ \<Rightarrow> Throw (Undefined ''userdata of another layout'') w1)
                     | _ \<Rightarrow> Return (0, val) w))
           | _ \<Rightarrow> Return (0, val) w))"


section \<open>Instantiation\<close>

definition lgi_type_new :: "world \<Rightarrow> GIBaseInfo \<Rightarrow> GArgument \<Rightarrow> (nat \<times> GArgument) outcome" where
  "lgi_type_new w ii val =
     (case g_base_info_get_type ii of
        GI_INFO_TYPE_FUNCTION \<Rightarrow> bnd (function_new w ii) (\<lambda>vals w1. Return (vals, val) w1)
      | GI_INFO_TYPE_STRUCT \<Rightarrow>
          bnd (struct_new w ii NULL True)
            (\<lambda>r w1. Return (fst r, case snd r of Some p \<Rightarrow> GArg v_pointer (ptr_val p)
                                               | None \<Rightarrow> val) w1)
      | GI_INFO_TYPE_CONSTANT \<Rightarrow>
          (case bi_data ii of
             ConstantData ti cval \<Rightarrow>
               bnd (lgi_val_to_lua w ti cval) (\<lambda>vals w1. Return (vals, val) w1)
           | _ \<Rightarrow> Throw (Undefined ''value of a descriptor that is no constant'') w)
      | _ \<Rightarrow> Return (0, val) w)"

section \<open>Names of types\<close>

fun info_path :: "GIBaseInfo \<Rightarrow> GIBaseInfo list" where
  "info_path (GIBaseInfo ns n None d) = [GIBaseInfo ns n None d]"
| "info_path (GIBaseInfo ns n (Some c) d) = info_path c @ [GIBaseInfo ns n (Some c) d]"

definition lgi_type_get_name :: "world \<Rightarrow> GIBaseInfo \<Rightarrow> nat \<times> world" where
  "lgi_type_get_name w info =
     (let parts = bi_namespace info # concat (map (\<lambda>i. [''.'', bi_name i]) (info_path info))
      in (length parts, w\<lparr>stack := stack w @ map LString parts\<rparr>))"

definition lua_concat :: "nat \<Rightarrow> world \<Rightarrow> unit outcome" where
  "lua_concat n w =
     (let st = stack w; k = length st - n in
      if list_all (\<lambda>v. case v of LString s \<Rightarrow> True | _ \<Rightarrow> False) (drop k st)
      then Return () (w\<lparr>stack := take k st @
             [LString (concat (map (\<lambda>v. case v of LString s \<Rightarrow> s | _ \<Rightarrow> []) (drop k st)))]\<rparr>)
      else Throw (LuaError ''attempt to concatenate a value that is no string'') w)"

definition lua_tostring_top :: "world \<Rightarrow> string" where
  "lua_tostring_top w = (case rev (stack w) of LString s # _ \<Rightarrow> s | _ \<Rightarrow> [])"

definition quoted :: "string \<Rightarrow> string" where
  "quoted s = [CHR 0x27] @ s @ [CHR 0x27]"

section \<open>Structure wrappers: field access\<close>

datatype GIFieldInfoFlags = GI_FIELD_IS_READABLE | GI_FIELD_IS_WRITABLE

definition has_flag :: "GIFieldInfo \<Rightarrow> GIFieldInfoFlags \<Rightarrow> bool" where
  "has_flag fi reqflag =
     (case reqflag of GI_FIELD_IS_READABLE \<Rightarrow> fi_readable fi | GI_FIELD_IS_WRITABLE \<Rightarrow> fi_writable fi)"

definition G_STRUCT_MEMBER_P :: "pointer \<Rightarrow> nat \<Rightarrow> pointer" where
  "G_STRUCT_MEMBER_P p off = (fst p, snd p + off)"

text \<open>
  \<^verbatim>\<open>struct_load_field\<close>. Its last parameter is \<^verbatim>\<open>GArgument** val\<close>, and its statement
  \<^verbatim>\<open>val = G_STRUCT_MEMBER_P(struct_->addr, g_field_info_get_offset(fi))\<close> assigns to that
  parameter, not to \<^verbatim>\<open>*val\<close>: the address of the field is computed and dropped, and the
  caller's pointer is not written. So the function returns the type of the field only.
\<close>

definition struct_load_field ::
  "world \<Rightarrow> GIBaseInfo \<Rightarrow> pointer \<Rightarrow> string \<Rightarrow> GIFieldInfoFlags \<Rightarrow> GITypeInfo outcome" where
  "struct_load_field w info addr name reqflag =
     (case g_struct_info_get_fields info of
        None \<Rightarrow> Throw (Undefined ''fields of a descriptor that is no structure'') w
      | Some fs \<Rightarrow>
          (case find (\<lambda>f. fi_name f = name) fs of
             None \<Rightarrow>
               (let (n, w1) = lgi_type_get_name w info in
                bnd (lua_concat n w1)
                  (\<lambda>_ w2. Throw (LuaError (''struct '' @ lua_tostring_top w2 @ '': no '' @
                                            quoted name)) w2))
           | Some fi \<Rightarrow>
               if \<not> has_flag fi reqflag then
                 (let (n, w1) = lgi_type_get_name w info in
                  bnd (lua_concat n w1)
                    (\<lambda>_ w2. Throw (LuaError (''struct '' @ lua_tostring_top w2 @ '': '' @
                                quoted name @ '' not '' @
                                (if reqflag = GI_FIELD_IS_READABLE then ''readable''
                                 else ''writable''))) w2))
               else
                 (let val = G_STRUCT_MEMBER_P addr (fi_offset fi) in
                  Return (fi_type fi) w)))"

text \<open>
  \<^verbatim>\<open>struct_index\<close> and \<^verbatim>\<open>struct_newindex\<close> declare \<^verbatim>\<open>GArgument* val\<close> without
  initialising it, and nothing writes it before it is used. The parameter \<open>val\<close> is the
  pointer that variable happens to hold.
\<close>

definition struct_index :: "lua_conv \<Rightarrow> pointer \<Rightarrow> world \<Rightarrow> nat outcome" where
  "struct_index cv val w =
     bnd (luaL_checkudata w 1 UD_STRUCT)
       (\<lambda>ud w1.
          case ud of
            Ud_struct info addr sz \<Rightarrow>
              bnd (luaL_checkstring cv w1 2)
                (\<lambda>np w2.
                   case c_string np of
                     None \<Rightarrow> Throw (Undefined ''no string'') w2
                   | Some name \<Rightarrow>
                       bnd (struct_load_field w2 info addr name GI_FIELD_IS_READABLE)
                         (\<lambda>ti w3. lgi_val_to_lua w3 ti (mem w3 val)))
          | _ \<Rightarrow> Throw (Undefined ''userdata of another layout'') w1)"

definition struct_newindex :: "lua_conv \<Rightarrow> pointer \<Rightarrow> world \<Rightarrow> nat outcome" where
  "struct_newindex cv val w =
     bnd (luaL_checkudata w 1 UD_STRUCT)
       (\<lambda>ud w1.
          case ud of
            Ud_struct info addr sz \<Rightarrow>
              bnd (luaL_checkstring cv w1 2)
                (\<lambda>np w2.
                   case c_string np of
                     None \<Rightarrow> Throw (Undefined ''no string'') w2
                   | Some name \<Rightarrow>
                       bnd (struct_load_field w2 info addr name GI_FIELD_IS_WRITABLE)
                         (\<lambda>ti w3.
                            bnd (lgi_val_from_lua cv w3 3 ti (mem w3 val) False)
                              (\<lambda>r w4. Return (fst r) (w4\<lparr>mem := (mem w4)(val := snd r)\<rparr>))))
          | _ \<Rightarrow> Throw (Undefined ''userdata of another layout'') w1)"

text \<open>The values a C function hands back to Lua: the topmost \<open>n\<close> of the stack.\<close>

definition results :: "nat outcome \<Rightarrow> lua_value list option" where
  "results r =
     (case r of Return n w \<Rightarrow> Some (drop (length (stack w) - n) (stack w)) | Throw e w \<Rightarrow> None)"


section \<open>Invocation\<close>

text \<open>
  An element of the array \<^verbatim>\<open>args\<close> of \<^verbatim>\<open>function_call\<close>. The array comes from
  \<^verbatim>\<open>g_newa\<close>, which does not initialise it: \<open>junk i\<close> below is what element \<open>i\<close> holds
  before the code writes it. A direction that is none of the three enumerators is
  \<open>None\<close>.
\<close>

record arginfo =
  a_arg :: GArgument
  a_ai :: GIArgInfo
  a_ti :: GITypeInfo
  a_dir :: "GIDirection option"

text \<open>
  The native function behind \<^verbatim>\<open>ffi_call\<close>: from its address, the values of its
  arguments and native memory it gives the value stored at the return slot, the memory
  it leaves, and the error it stores through the error argument.
\<close>

type_synonym native =
  "pointer \<Rightarrow> GArgument list \<Rightarrow> (pointer \<Rightarrow> GArgument)
     \<Rightarrow> GArgument \<times> (pointer \<Rightarrow> GArgument) \<times> GError option"

text \<open>The first loop of \<^verbatim>\<open>function_call\<close>, over the declared parameters.\<close>

fun marshal_in ::
  "lua_conv \<Rightarrow> GIArgInfo list \<Rightarrow> nat \<Rightarrow> nat \<Rightarrow> arginfo list \<Rightarrow> world
     \<Rightarrow> (nat \<times> arginfo list) outcome" where
  "marshal_in cv [] ffi_argi lua_argi args w = Return (ffi_argi, args) w"
| "marshal_in cv (ai # ais) ffi_argi lua_argi args w =
     (let a = (args ! ffi_argi)\<lparr>a_ai := ai, a_ti := ai_type ai,
                                 a_dir := Some (ai_direction ai)\<rparr> in
      if a_dir a = Some GI_DIRECTION_IN \<or> a_dir a = Some GI_DIRECTION_INOUT then
        bnd (lgi_val_from_lua cv w lua_argi (a_ti a) (a_arg a)
               (ai_optional (a_ai a) \<or> ai_may_be_null (a_ai a)))
          (\<lambda>r w1. marshal_in cv ais (ffi_argi + 1) (lua_argi + fst r)
                     (args[ffi_argi := a\<lparr>a_arg := snd r\<rparr>]) w1)
      else if ai_caller_allocates (a_ai a) then
        (case ti_interface (a_ti a) of
           None \<Rightarrow> Throw (Undefined ''null descriptor'') w
         | Some ii \<Rightarrow>
             bnd (lgi_type_new w ii (a_arg a))
               (\<lambda>r w1. marshal_in cv ais (ffi_argi + 1) lua_argi
                          (args[ffi_argi := a\<lparr>a_arg := snd r\<rparr>]) w1))
      else marshal_in cv ais (ffi_argi + 1) lua_argi (args[ffi_argi := a]) w)"

text \<open>
  The second loop, which runs \<^verbatim>\<open>ffi_argi\<close> from 0 over \<open>argc\<close> elements: \<open>elems\<close> is
  the elements it visits.
\<close>

fun marshal_out :: "arginfo list \<Rightarrow> nat \<Rightarrow> world \<Rightarrow> nat outcome" where
  "marshal_out [] lua_argi w = Return lua_argi w"
| "marshal_out (a # elems) lua_argi w =
     (if a_dir a = Some GI_DIRECTION_OUT \<or> a_dir a = Some GI_DIRECTION_INOUT then
        bnd (lgi_val_to_lua w (a_ti a) (a_arg a))
          (\<lambda>n w1. marshal_out elems (lua_argi + n) w1)
      else marshal_out elems lua_argi w)"

text \<open>The part of \<^verbatim>\<open>function_call\<close> up to the native call: the frame it builds.\<close>

definition build_frame ::
  "lua_conv \<Rightarrow> (nat \<Rightarrow> arginfo) \<Rightarrow> GIBaseInfo \<Rightarrow> world \<Rightarrow> arginfo list outcome" where
  "build_frame cv junk info w =
     (case bi_data info of
        FunctionData is_method is_constructor throws ais ret sy \<Rightarrow>
          (let has_self = is_method \<and> \<not> is_constructor;
               argc = length ais;
               argffi = argc + 1 + (if has_self then 1 else 0) + (if throws then 1 else 0);
               args = map junk [0..<argffi];
               lua_argi = (if has_self then 3 else 2);
               ffi_argi = (if has_self then 2 else 1);
               args1 = (if has_self
                        then args[1 := (args ! 1)\<lparr>a_arg := GArg v_pointer (ptr_val NULL)\<rparr>]
                        else args)
           in bnd (marshal_in cv ais ffi_argi lua_argi args1 w)
                (\<lambda>r w1.
                   Return (if throws
                           then (snd r)[fst r := (snd r ! fst r)\<lparr>a_arg := GArg v_pointer (CPtr ErrVar 0)\<rparr>]
                           else snd r) w1))
      | _ \<Rightarrow> Throw (Undefined ''flags of a descriptor that is no function'') w)"

definition function_call :: "lua_conv \<Rightarrow> native \<Rightarrow> (nat \<Rightarrow> arginfo) \<Rightarrow> world \<Rightarrow> nat outcome" where
  "function_call cv nat_fn junk w =
     bnd (luaL_checkudata w 1 UD_FUNCTION)
       (\<lambda>ud w0.
          case ud of
            Ud_function native_address info \<Rightarrow>
              bnd (build_frame cv junk info w0)
                (\<lambda>args w1.
                   let (rv, m, e) = nat_fn native_address (map a_arg (tl args)) (mem w1);
                       err = (if fn_throws (bi_data info) then e else None);
                       w2 = w1\<lparr>mem := m\<rparr>;
                       args2 = args[0 := (args ! 0)\<lparr>a_arg := rv\<rparr>]
                   in if err \<noteq> None then lgi_error w2 err
                      else
                        (let args3 = args2[0 := (args2 ! 0)\<lparr>a_ti := fn_return (bi_data info)\<rparr>]
                         in bnd (lgi_val_to_lua w2 (a_ti (args3 ! 0)) (a_arg (args3 ! 0)))
                              (\<lambda>n w3. marshal_out (take (length (fn_args (bi_data info))) args3)
                                         n w3)))
          | _ \<Rightarrow> Throw (Undefined ''userdata of another layout'') w0)"

section \<open>Resolution\<close>

text \<open>
  The registry: \<open>rp_require\<close> gives the error with which loading a namespace fails,
  \<open>rp_find\<close> the descriptor of a name in a namespace.
\<close>

record repository =
  rp_require :: "string \<Rightarrow> GError option"
  rp_find :: "string \<Rightarrow> string \<Rightarrow> GIBaseInfo option"

definition luaL_optstring :: "lua_conv \<Rightarrow> world \<Rightarrow> nat \<Rightarrow> pointer option outcome" where
  "luaL_optstring cv w i =
     (if lua_isnoneornil w i then Return None w
      else bnd (luaL_checkstring cv w i) (\<lambda>p w1. Return (Some p) w1))"

definition check_c_string :: "lua_conv \<Rightarrow> world \<Rightarrow> nat \<Rightarrow> string outcome" where
  "check_c_string cv w i =
     bnd (luaL_checkstring cv w i)
       (\<lambda>p w1. case c_string p of Some s \<Rightarrow> Return s w1
                | None \<Rightarrow> Throw (Undefined ''no string'') w1)"

definition opt_c_string :: "lua_conv \<Rightarrow> world \<Rightarrow> nat \<Rightarrow> string option outcome" where
  "opt_c_string cv w i =
     bnd (luaL_optstring cv w i)
       (\<lambda>p w1. case p of None \<Rightarrow> Return None w1
                | Some q \<Rightarrow> (case c_string q of Some s \<Rightarrow> Return (Some s) w1
                             | None \<Rightarrow> Throw (Undefined ''no string'') w1))"

text \<open>\<^verbatim>\<open>lgi_find\<close> of \<^verbatim>\<open>lgi.c\<close>: arguments namespace, container (or nil), symbol.\<close>

definition lgi_find :: "lua_conv \<Rightarrow> repository \<Rightarrow> world \<Rightarrow> nat outcome" where
  "lgi_find cv repo w =
     bnd (check_c_string cv w 1) (\<lambda>namespace w1.
     bnd (opt_c_string cv w1 2) (\<lambda>object w2.
     bnd (check_c_string cv w2 3) (\<lambda>symbol w3.
       case rp_require repo namespace of
         Some err \<Rightarrow> lgi_error w3 (Some err)
       | None \<Rightarrow>
           (let info = rp_find repo namespace (case object of Some ob \<Rightarrow> ob | None \<Rightarrow> symbol);
                looked =
                  (case object of
                     None \<Rightarrow> Some info
                   | Some ob \<Rightarrow>
                       (case info of
                          None \<Rightarrow> None
                        | Some c \<Rightarrow>
                            Some (case g_base_info_get_type c of
                                    GI_INFO_TYPE_OBJECT \<Rightarrow> g_object_info_find_method c symbol
                                  | GI_INFO_TYPE_STRUCT \<Rightarrow> g_struct_info_find_method c symbol
                                  | _ \<Rightarrow> None)))
            in case looked of
                 None \<Rightarrow> Throw (Undefined ''null descriptor'') w3
               | Some None \<Rightarrow>
                   Return 2 (lua_push (LString (''symbol '' @ namespace @ ''.'' @
                               (case object of Some ob \<Rightarrow> ob | None \<Rightarrow> []) @
                               (case object of Some ob \<Rightarrow> ''.'' | None \<Rightarrow> []) @
                               symbol @ '' not found''))
                             (lua_pushboolean 0 w3))
               | Some (Some found) \<Rightarrow>
                   (case rp_find repo ''GIRepository'' ''IBaseInfo'' of
                      None \<Rightarrow>
                        Return 2 (lua_push (LString ''unable to resolve GIRepository.IBaseInfo'')
                                  (lua_pushboolean 0 w3))
                    | Some baseinfo_info \<Rightarrow>
                        bnd (struct_new w3 baseinfo_info (Info found, 0) False)
                          (\<lambda>r w4. Return (fst r) w4))))))"

text \<open>\<^verbatim>\<open>lgi_get\<close> of \<^verbatim>\<open>lgi.c\<close>.\<close>

definition lgi_get :: "world \<Rightarrow> nat outcome" where
  "lgi_get w =
     bnd (luaL_checkudata w 1 UD_STRUCT)
       (\<lambda>ud w1.
          case ud of
            Ud_struct info addr sz \<Rightarrow>
              if bi_namespace info = ''GIRepository'' \<and> bi_name info = ''IBaseInfo'' then
                (case info_at addr of
                   None \<Rightarrow> Throw (Undefined ''no descriptor at the address'') w1
                 | Some ii \<Rightarrow> bnd (lgi_type_new w1 ii Indeterminate) (\<lambda>r w2. Return (fst r) w2))
              else Return 1 (lua_push LNil w1)
          | _ \<Rightarrow> Throw (Undefined ''userdata of another layout'') w1)"


section \<open>The later entry points of \<^verbatim>\<open>core.c\<close>\<close>

text \<open>
  \<^verbatim>\<open>core.c\<close> calls six functions of other files of the binding. They are parameters
  here: each takes the state and its C arguments and ends like any other operation.
\<close>

record core_env =
  lgi_compound_create :: "world \<Rightarrow> GIBaseInfo option \<Rightarrow> pointer \<Rightarrow> bool \<Rightarrow> bool outcome"
  lgi_compound_get :: "world \<Rightarrow> nat \<Rightarrow> GIBaseInfo option \<Rightarrow> bool \<Rightarrow> pointer outcome"
  lgi_callable_create :: "world \<Rightarrow> GIBaseInfo \<Rightarrow> nat outcome"
  lgi_compound_struct_new :: "world \<Rightarrow> GIBaseInfo \<Rightarrow> pointer outcome"
  lgi_compound_object_new :: "world \<Rightarrow> GIBaseInfo \<Rightarrow> nat \<Rightarrow> pointer outcome"
  lgi_marshal_2lua :: "world \<Rightarrow> GITypeInfo \<Rightarrow> GArgument \<Rightarrow> bool outcome"

definition info_type_number :: "GIInfoType \<Rightarrow> int" where
  "info_type_number t =
     (case t of
        GI_INFO_TYPE_INVALID \<Rightarrow> 0 | GI_INFO_TYPE_FUNCTION \<Rightarrow> 1 | GI_INFO_TYPE_CALLBACK \<Rightarrow> 2
      | GI_INFO_TYPE_STRUCT \<Rightarrow> 3 | GI_INFO_TYPE_BOXED \<Rightarrow> 4 | GI_INFO_TYPE_ENUM \<Rightarrow> 5
      | GI_INFO_TYPE_FLAGS \<Rightarrow> 6 | GI_INFO_TYPE_OBJECT \<Rightarrow> 7 | GI_INFO_TYPE_INTERFACE \<Rightarrow> 8
      | GI_INFO_TYPE_CONSTANT \<Rightarrow> 9 | GI_INFO_TYPE_ERROR_DOMAIN \<Rightarrow> 10 | GI_INFO_TYPE_UNION \<Rightarrow> 11
      | GI_INFO_TYPE_VALUE \<Rightarrow> 12 | GI_INFO_TYPE_SIGNAL \<Rightarrow> 13 | GI_INFO_TYPE_VFUNC \<Rightarrow> 14
      | GI_INFO_TYPE_PROPERTY \<Rightarrow> 15 | GI_INFO_TYPE_FIELD \<Rightarrow> 16 | GI_INFO_TYPE_ARG \<Rightarrow> 17
      | GI_INFO_TYPE_TYPE \<Rightarrow> 18 | GI_INFO_TYPE_UNRESOLVED \<Rightarrow> 19)"

text \<open>
  \<^verbatim>\<open>lgi_find\<close> of \<^verbatim>\<open>core.c\<close>: arguments symbol, container (or nil); the namespace is
  always \<^verbatim>\<open>GIRepository\<close>. \<open>baseinfo\<close> is the global \<^verbatim>\<open>lgi_baseinfo_info\<close>.
\<close>

definition core_lgi_find ::
  "lua_conv \<Rightarrow> core_env \<Rightarrow> repository \<Rightarrow> GIBaseInfo option \<Rightarrow> world \<Rightarrow> nat outcome" where
  "core_lgi_find cv env repo baseinfo w =
     bnd (check_c_string cv w 1) (\<lambda>symbol w1.
     bnd (opt_c_string cv w1 2) (\<lambda>container w2.
       let info = rp_find repo ''GIRepository''
                    (case container of Some c \<Rightarrow> c | None \<Rightarrow> symbol);
           info1 =
             (case (container, info) of
                (Some c, Some i) \<Rightarrow>
                  (case g_base_info_get_type i of
                     GI_INFO_TYPE_OBJECT \<Rightarrow> g_object_info_find_method i symbol
                   | GI_INFO_TYPE_INTERFACE \<Rightarrow> g_interface_info_find_method i symbol
                   | GI_INFO_TYPE_STRUCT \<Rightarrow> g_struct_info_find_method i symbol
                   | _ \<Rightarrow> None)
              | _ \<Rightarrow> info)
       in case info1 of
            None \<Rightarrow>
              Throw (LuaError (''unable to resolve GIRepository.'' @
                       (case container of Some c \<Rightarrow> c | None \<Rightarrow> []) @
                       (case container of Some c \<Rightarrow> '':'' | None \<Rightarrow> []) @ symbol)) w2
          | Some found \<Rightarrow>
              bnd (lgi_compound_create env w2 baseinfo (Info found, 0) True)
                (\<lambda>b w3. Return (if b then 1 else 0) w3)))"

text \<open>\<^verbatim>\<open>lgi_get\<close> of \<^verbatim>\<open>core.c\<close>.\<close>

definition core_lgi_get :: "core_env \<Rightarrow> GIBaseInfo option \<Rightarrow> world \<Rightarrow> nat outcome" where
  "core_lgi_get env baseinfo w =
     bnd (lgi_compound_get env w 1 baseinfo False)
       (\<lambda>p w1.
          case info_at p of
            None \<Rightarrow> Throw (Undefined ''no descriptor at the address'') w1
          | Some ii \<Rightarrow>
              (case g_base_info_get_type ii of
                 GI_INFO_TYPE_FUNCTION \<Rightarrow> lgi_callable_create env w1 ii
               | GI_INFO_TYPE_STRUCT \<Rightarrow>
                   bnd (lgi_compound_struct_new env w1 ii) (\<lambda>res w2. Return 1 w2)
               | GI_INFO_TYPE_OBJECT \<Rightarrow>
                   bnd (lgi_compound_object_new env w1 ii 2) (\<lambda>res w2. Return 1 w2)
               | GI_INFO_TYPE_CONSTANT \<Rightarrow>
                   (case bi_data ii of
                      ConstantData ti val \<Rightarrow>
                        bnd (lgi_marshal_2lua env w1 ti val)
                          (\<lambda>b w2. Return (if b then 1 else 0) w2)
                    | _ \<Rightarrow> Throw (Undefined ''value of a descriptor that is no constant'') w1)
               | t \<Rightarrow>
                   (let msg = ''failing to create unknown type '' @
                              fmt_d (info_type_number t) @ '' ('' @
                              bi_namespace ii @ ''.'' @ bi_name ii @ '')''
                    in Throw (LuaError msg) (lua_push (LString msg) w1))))"

section \<open>Example data\<close>

definition empty_world :: world where
  "empty_world = \<lparr>stack = [], heap = Map.empty, next_ud = 0, cache = Map.empty,
                   mem = (\<lambda>p. Indeterminate)\<rparr>"

definition no_conv :: lua_conv where
  "no_conv = \<lparr>number2str = (\<lambda>d. []), str2d = (\<lambda>s. None)\<rparr>"

definition ex_array :: GITypeInfo where
  "ex_array = GITypeInfo GI_TYPE_TAG_ARRAY None"

definition ex_int32 :: GITypeInfo where
  "ex_int32 = GITypeInfo GI_TYPE_TAG_INT32 None"

definition ex_double :: GITypeInfo where
  "ex_double = GITypeInfo GI_TYPE_TAG_DOUBLE None"

text \<open>The structure \<^verbatim>\<open>Point {gint32 x; gint32 y;}\<close>, both fields readable and writable.\<close>

definition ex_point :: GIBaseInfo where
  "ex_point = GIBaseInfo ''Test'' ''Point'' None
     (StructData 8 [GIFieldInfo ''x'' True True 0 ex_int32,
                    GIFieldInfo ''y'' True True 4 ex_int32] [])"

text \<open>
  A handle of a \<^verbatim>\<open>Point\<close> at native address 4096 whose \<^verbatim>\<open>x\<close> is 1, indexed with
  \<^verbatim>\<open>x\<close>, and with 5 as the value to store; the cell at address 8192 holds 7.
\<close>

definition ex_point_world :: world where
  "ex_point_world =
     \<lparr>stack = [LUserdata 0, LString ''x'', LNumber 5],
      heap = [0 \<mapsto> \<lparr>ud_meta = UD_STRUCT, ud_body = Ud_struct ex_point (Abs, 4096) 0\<rparr>],
      next_ud = 1, cache = Map.empty,
      mem = (\<lambda>p. Indeterminate)((Abs, 4096) := GArg v_int32 (CInt 1),
                                   (Abs, 8192) := GArg v_int32 (CInt 7))\<rparr>"

text \<open>The function \<^verbatim>\<open>void bump (gint *x)\<close> with \<^verbatim>\<open>x\<close> an inout parameter, called with 5.\<close>

definition ex_bump :: GIBaseInfo where
  "ex_bump = GIBaseInfo ''Test'' ''bump'' None
     (FunctionData False False False
        [GIArgInfo GI_DIRECTION_INOUT False False False (GITypeInfo GI_TYPE_TAG_INT None)]
        (GITypeInfo GI_TYPE_TAG_VOID None) (Inr 4096))"

definition ex_bump_world :: world where
  "ex_bump_world =
     \<lparr>stack = [LUserdata 0, LNumber 5],
      heap = [0 \<mapsto> \<lparr>ud_meta = UD_FUNCTION, ud_body = Ud_function (Abs, 4096) ex_bump\<rparr>],
      next_ud = 1, cache = Map.empty, mem = (\<lambda>p. Indeterminate)\<rparr>"

text \<open>
  A registry in which the namespace \<^verbatim>\<open>Test\<close> loads and holds \<^verbatim>\<open>Point\<close> only, and a
  call \<^verbatim>\<open>find ('Test', 'Nope', 'foo')\<close>.
\<close>

definition ex_repo :: repository where
  "ex_repo =
     \<lparr>rp_require = (\<lambda>ns. if ns = ''Test'' then None
                          else Some \<lparr>message = ''Typelib file for namespace not found'', code = 0\<rparr>),
      rp_find = (\<lambda>ns n. if ns = ''Test'' \<and> n = ''Point'' then Some ex_point else None)\<rparr>"

definition ex_find_world :: world where
  "ex_find_world = empty_world\<lparr>stack := [LString ''Test'', LString ''Nope'', LString ''foo'']\<rparr>"

definition world_of :: "'a outcome \<Rightarrow> world" where
  "world_of r = (case r of Return a w \<Rightarrow> w | Throw e w \<Rightarrow> w)"

text \<open>Two wrappers asked for in a row for one address.\<close>

definition struct_new_twice :: "world \<Rightarrow> GIBaseInfo \<Rightarrow> pointer \<Rightarrow> (nat \<times> pointer option) outcome" where
  "struct_new_twice w info addr =
     bnd (struct_new w info addr False) (\<lambda>r w1. struct_new w1 info addr False)"

text \<open>A value converted to Lua and back: the slot that results.\<close>

definition round_trip :: "lua_conv \<Rightarrow> GITypeInfo \<Rightarrow> GArgument \<Rightarrow> (nat \<times> GArgument) outcome" where
  "round_trip cv ti val =
     bnd (lgi_val_to_lua empty_world ti val)
       (\<lambda>n w. lgi_val_from_lua cv w 1 ti Indeterminate False)"

definition failed :: "'a outcome \<Rightarrow> bool" where
  "failed r = (case r of Return a w \<Rightarrow> False | Throw e w \<Rightarrow> True)"

text \<open>The function \<^verbatim>\<open>void take (array a)\<close> with one in parameter of tag \<^verbatim>\<open>ARRAY\<close>.\<close>

definition ex_take :: GIBaseInfo where
  "ex_take = GIBaseInfo ''Test'' ''take'' None
     (FunctionData False False False
        [GIArgInfo GI_DIRECTION_IN False False False ex_array]
        (GITypeInfo GI_TYPE_TAG_VOID None) (Inr 4096))"

definition ex_take_world :: world where
  "ex_take_world =
     \<lparr>stack = [LUserdata 0, LNumber 5],
      heap = [0 \<mapsto> \<lparr>ud_meta = UD_FUNCTION, ud_body = Ud_function (Abs, 4096) ex_take\<rparr>],
      next_ud = 1, cache = Map.empty, mem = (\<lambda>p. Indeterminate)\<rparr>"

definition ex_junk :: "nat \<Rightarrow> arginfo" where
  "ex_junk i = \<lparr>a_arg = Indeterminate,
               a_ai = GIArgInfo GI_DIRECTION_IN False False False ex_array,
               a_ti = ex_array, a_dir = None\<rparr>"

definition ex_native :: native where
  "ex_native addr vals m = (Indeterminate, m, None)"







text \<open>
  The function \<^verbatim>\<open>gboolean parse (gint *x, gfloat scale, GError **error)\<close> with \<^verbatim>\<open>x\<close>
  inout, called with 5 and 2, and a native function that stores 9 at address 8192 and
  fails.
\<close>

definition ex_parse :: GIBaseInfo where
  "ex_parse = GIBaseInfo ''Test'' ''parse'' None
     (FunctionData False False True
        [GIArgInfo GI_DIRECTION_INOUT False False False (GITypeInfo GI_TYPE_TAG_INT None),
         GIArgInfo GI_DIRECTION_IN False False False (GITypeInfo GI_TYPE_TAG_FLOAT None)]
        (GITypeInfo GI_TYPE_TAG_BOOLEAN None) (Inr 4096))"

definition ex_parse_world :: world where
  "ex_parse_world =
     \<lparr>stack = [LUserdata 0, LNumber 5, LNumber 2],
      heap = [0 \<mapsto> \<lparr>ud_meta = UD_FUNCTION, ud_body = Ud_function (Abs, 4096) ex_parse\<rparr>],
      next_ud = 1, cache = Map.empty, mem = (\<lambda>p. Indeterminate)\<rparr>"

definition ex_failing_native :: native where
  "ex_failing_native addr vals m =
     (GArg v_boolean (CInt 0), m((Abs, 8192) := GArg v_int (CInt 9)),
      Some \<lparr>message = ''bad input'', code = 7\<rparr>)"

text \<open>
  The method \<^verbatim>\<open>void touch (Point *self, gfloat f)\<close>, called on a receiver and 5.
\<close>

definition ex_touch :: GIBaseInfo where
  "ex_touch = GIBaseInfo ''Test'' ''touch'' (Some ex_point)
     (FunctionData True False False
        [GIArgInfo GI_DIRECTION_IN False False False (GITypeInfo GI_TYPE_TAG_FLOAT None)]
        (GITypeInfo GI_TYPE_TAG_VOID None) (Inr 4096))"

definition ex_touch_world :: world where
  "ex_touch_world =
     \<lparr>stack = [LUserdata 0, LUserdata 1, LNumber 5],
      heap = [0 \<mapsto> \<lparr>ud_meta = UD_FUNCTION, ud_body = Ud_function (Abs, 4096) ex_touch\<rparr>,
              1 \<mapsto> \<lparr>ud_meta = UD_STRUCT, ud_body = Ud_struct ex_point (Abs, 8192) 0\<rparr>],
      next_ud = 2, cache = Map.empty, mem = (\<lambda>p. Indeterminate)\<rparr>"

definition failure_of :: "'a outcome \<Rightarrow> failure option" where
  "failure_of r = (case r of Return a w \<Rightarrow> None | Throw e w \<Rightarrow> Some e)"

text \<open>
  Descriptors of an enumeration, an object type and a constant; the descriptor of
  \<^verbatim>\<open>GIRepository.IBaseInfo\<close> as \<^verbatim>\<open>lgi_find\<close> looks it up; and the handle of a
  descriptor that \<^verbatim>\<open>lgi_find\<close> creates, as the only argument of a call.
\<close>

definition ex_enum :: GIBaseInfo where
  "ex_enum = GIBaseInfo ''Test'' ''Color'' None (EnumData GI_TYPE_TAG_UINT32)"

definition ex_object :: GIBaseInfo where
  "ex_object = GIBaseInfo ''Test'' ''Widget'' None (ObjectData [])"

definition ex_const :: GIBaseInfo where
  "ex_const = GIBaseInfo ''Test'' ''ANSWER'' None (ConstantData ex_int32 (GArg v_int32 (CInt 42)))"

definition ex_ibaseinfo :: GIBaseInfo where
  "ex_ibaseinfo = GIBaseInfo ''GIRepository'' ''IBaseInfo'' None (StructData 0 [] [])"

definition ex_handle_world :: "GIBaseInfo \<Rightarrow> world" where
  "ex_handle_world ii =
     \<lparr>stack = [LUserdata 0],
      heap = [0 \<mapsto> \<lparr>ud_meta = UD_STRUCT, ud_body = Ud_struct ex_ibaseinfo (Info ii, 0) 0\<rparr>],
      next_ud = 1, cache = Map.empty, mem = (\<lambda>p. Indeterminate)\<rparr>"

text \<open>
  Stand-ins for the functions \<^verbatim>\<open>core.c\<close> calls: \<^verbatim>\<open>lgi_compound_get\<close> gives the address
  a handle wraps, the creating functions push a new userdata and the marshaler pushes
  the value as \<^verbatim>\<open>lgi_val_to_lua\<close> does.
\<close>

definition ex_push_new :: "world \<Rightarrow> GIBaseInfo \<Rightarrow> pointer outcome" where
  "ex_push_new w ii =
     Return (UdData (next_ud w), 0)
       (lua_push (LUserdata (next_ud w))
          (w\<lparr>heap := (heap w)(next_ud w \<mapsto>
                 \<lparr>ud_meta = UD_STRUCT, ud_body = Ud_struct ii (UdData (next_ud w), 0) 0\<rparr>),
             next_ud := Suc (next_ud w)\<rparr>))"

definition ex_env :: core_env where
  "ex_env =
     \<lparr>lgi_compound_create = (\<lambda>w info addr own. bnd (ex_push_new w ex_ibaseinfo)
                                                  (\<lambda>p w1. Return True w1)),
      lgi_compound_get = (\<lambda>w i info opt.
         bnd (luaL_checkudata w i UD_STRUCT)
           (\<lambda>ud w1. case ud of Ud_struct hinfo addr sz \<Rightarrow> Return addr w1
                     | _ \<Rightarrow> Throw (Undefined ''userdata of another layout'') w1)),
      lgi_callable_create = function_new,
      lgi_compound_struct_new = ex_push_new,
      lgi_compound_object_new = (\<lambda>w ii n. ex_push_new w ii),
      lgi_marshal_2lua = (\<lambda>w ti val. bnd (lgi_val_to_lua w ti val)
                                      (\<lambda>n w1. Return (n \<noteq> 0) w1))\<rparr>"

text \<open>
  The state with another value in the place of the receiver (index 2 of the stack), and
  an outcome with its state changed.
\<close>

definition set_receiver :: "lua_value \<Rightarrow> world \<Rightarrow> world" where
  "set_receiver v w = w\<lparr>stack := (stack w)[1 := v]\<rparr>"

definition map_world :: "(world \<Rightarrow> world) \<Rightarrow> 'a outcome \<Rightarrow> 'a outcome" where
  "map_world f r = (case r of Return a w \<Rightarrow> Return a (f w) | Throw e w \<Rightarrow> Throw e (f w))"

definition grows :: "world \<Rightarrow> 'a outcome \<Rightarrow> bool" where
  "grows w r =
     (case r of Return a w1 \<Rightarrow> length (stack w) \<le> length (stack w1) | Throw e w1 \<Rightarrow> True)"

text \<open>
  The native values whose round trip through Lua is exact: of a tag with a row in the
  tables, written through the member of that row, and either an integer that fits the
  member and is below \<open>2 ^ 53\<close> in magnitude (0 or 1 for a boolean), or a pointer to a
  string without NUL. No value of a floating member is among them.
\<close>

definition representable :: "GITypeTag \<Rightarrow> GArgument \<Rightarrow> bool" where
  "representable tag val =
     (case from_lua_case tag of
        None \<Rightarrow> False
      | Some (ty, member, chk) \<Rightarrow>
          (case val of
             Indeterminate \<Rightarrow> False
           | GArg t v \<Rightarrow>
               t = member \<and>
               (case (member, v) of
                  (C_int w sg, CInt n) \<Rightarrow>
                    in_range w sg n \<and> \<bar>n\<bar> < 2 ^ 53 \<and>
                    (tag = GI_TYPE_TAG_BOOLEAN \<longrightarrow> n = 0 \<or> n = 1)
                | (C_pointer, CPtr r off) \<Rightarrow>
                    (case r of Str s \<Rightarrow> off = 0 \<and> CHR 0x00 \<notin> set s | _ \<Rightarrow> False)
                | _ \<Rightarrow> False)))"

definition value_of :: "'a outcome \<Rightarrow> 'a option" where
  "value_of r = (case r of Return a w \<Rightarrow> Some a | Throw e w \<Rightarrow> None)"

definition ex_int64 :: GITypeInfo where
  "ex_int64 = GITypeInfo GI_TYPE_TAG_INT64 None"

text \<open>
  The handle of the descriptor of \<^verbatim>\<open>Point\<close> in a state where the memory the next
  userdata will get holds 7; and the handle of the descriptor of \<^verbatim>\<open>bump\<close> in a state
  where a callable of \<^verbatim>\<open>bump\<close> exists and is cached.
\<close>

definition ex_stale_world :: world where
  "ex_stale_world =
     (ex_handle_world ex_point)
       \<lparr>mem := (\<lambda>p. Indeterminate)((UdData 1, 0) := GArg v_int32 (CInt 7))\<rparr>"

definition ex_cached_world :: world where
  "ex_cached_world =
     \<lparr>stack = [LUserdata 1],
      heap = [0 \<mapsto> \<lparr>ud_meta = UD_FUNCTION, ud_body = Ud_function (Abs, 4096) ex_bump\<rparr>,
              1 \<mapsto> \<lparr>ud_meta = UD_STRUCT,
                      ud_body = Ud_struct ex_ibaseinfo (Info ex_bump, 0) 0\<rparr>],
      next_ud = 2, cache = [(Abs, 4096) \<mapsto> LUserdata 0], mem = (\<lambda>p. Indeterminate)\<rparr>"

section \<open>Properties\<close>


declare bits.simps [simp del]
declare dec_digits.simps [simp del]

lemmas marshal_defs =
  lgi_val_to_lua_def lgi_simple_val_to_lua_def to_lua_case_def bnd_def
  lgi_val_from_lua_def from_lua_case_def call_push_def call_check_def assign_member_def
  luaL_checkinteger_def luaL_checknumber_def lua_number2integer_def lua_index_def
  lua_pushinteger_def lua_pushnumber_def lua_pushboolean_def lua_push_def lua_isnoneornil_def

lemmas member_defs =
  v_boolean_def v_int8_def v_uint8_def v_int16_def v_uint16_def v_int32_def v_uint32_def
  v_int64_def v_uint64_def v_float_def v_double_def v_short_def v_ushort_def v_int_def
  v_uint_def v_long_def v_ulong_def v_ssize_def v_size_def v_pointer_def
  gboolean_def gint8_def guint8_def gint16_def guint16_def gint32_def guint32_def
  gint64_def guint64_def gshort_def gushort_def gint_def guint_def glong_def gulong_def
  gssize_def gsize_def GType_def gfloat_def gdouble_def gpointer_def lua_Integer_def

subsection \<open>Rounding\<close>

lemma bits_le: "n < 2 ^ p \<Longrightarrow> bits n \<le> p"
proof (induction p arbitrary: n)
  case 0
  then show ?case by (simp add: bits.simps)
next
  case (Suc p)
  have "n div 2 < 2 ^ p" using Suc.prems by simp
  then have "bits (n div 2) \<le> p" by (rule Suc.IH)
  then show ?case by (subst bits.simps) simp
qed

lemma round_int_small: "\<bar>n\<bar> < 2 ^ p \<Longrightarrow> round_int p n = n"
proof -
  assume a: "\<bar>n\<bar> < 2 ^ p"
  have "nat \<bar>n\<bar> < 2 ^ p" using a by (simp add: nat_less_iff)
  then have "bits (nat \<bar>n\<bar>) \<le> p" by (rule bits_le)
  then show ?thesis by (simp add: round_int_def Let_def)
qed

lemma trunc_three_halves: "trunc (3 / 2) = 1"
  by (simp add: trunc_def floor_eq_iff)

lemma trunc_of_int: "trunc (of_int n) = n"
  by (simp add: trunc_def)

lemma trunc_one: "trunc 1 = 1"
  using trunc_of_int [of 1] by simp

subsection \<open>Call results\<close>

text \<open>
  Claim C1. A successful call should give the marshaled return value, if the return type
  produces one, and then the marshaled value of every out and inout parameter in the
  order of declaration. The second loop of \<^verbatim>\<open>function_call\<close> starts again at element 0
  of the frame, while the first loop stored the parameters from element 1 on: it never
  visits the last parameter. For \<^verbatim>\<open>void bump (gint *x)\<close> with \<^verbatim>\<open>x\<close> inout, called with
  5: the slot of \<^verbatim>\<open>x\<close> holds 5 at the call, its marshaled value is the number 5, and yet
  the call gives no value at all, whatever the native function does and whatever the
  frame held before.
\<close>

theorem function_call_drops_inout:
  "build_frame cv junk ex_bump ex_bump_world =
     Return [junk 0,
             (junk 1)\<lparr>a_arg := GArg v_int (CInt 5),
                       a_ai := GIArgInfo GI_DIRECTION_INOUT False False False
                                 (GITypeInfo GI_TYPE_TAG_INT None),
                       a_ti := GITypeInfo GI_TYPE_TAG_INT None,
                       a_dir := Some GI_DIRECTION_INOUT\<rparr>] ex_bump_world \<and>
   results (lgi_val_to_lua ex_bump_world (GITypeInfo GI_TYPE_TAG_INT None) (GArg v_int (CInt 5))) =
     Some [LNumber 5] \<and>
   results (function_call cv nat_fn junk ex_bump_world) = Some []"
  by (simp add: function_call_def build_frame_def results_def luaL_checkudata_def
       ex_bump_world_def ex_bump_def UD_FUNCTION_def
       marshal_defs member_defs Let_def round_int_small wrap_int_def trunc_def in_range_def
       upt_rec numeral_eq_Suc split: prod.splits)

text \<open>
  Claim C5. When the native call of a throwing function stores an error, the invocation
  ends with the failure triple of \<^verbatim>\<open>lgi_error\<close> (false, the message, the code) and
  nothing else: the stack below the triple is the stack the input phase left, so neither
  the return value nor any out or inout parameter is marshaled, whatever the native call
  returned or wrote to memory. The first two hypotheses say that the callee is a callable
  handle and that marshaling the inputs succeeded with the frame \<open>args\<close>; the last says
  that the code is a \<^verbatim>\<open>gint\<close>.
\<close>

theorem native_error_short_circuits:
  assumes ud: "luaL_checkudata w 1 UD_FUNCTION = Return (Ud_function addr info) w0"
      and fr: "build_frame cv junk info w0 = Return args w1"
      and th: "fn_throws (bi_data info)"
      and nf: "nat_fn addr (map a_arg (tl args)) (mem w1) = (rv, m, Some e)"
      and cd: "in_range 32 True (code e)"
  shows "function_call cv nat_fn junk w =
           Return 3 (w1\<lparr>mem := m,
                        stack := stack w1 @ [LBoolean False, LString (c_str (message e)),
                                             LNumber (of_int (code e))]\<rparr>)"
proof -
  have "\<bar>code e\<bar> < 2 ^ 53" using cd by (simp add: in_range_def abs_less_iff)
  then have r: "round_int 53 (code e) = code e" by (rule round_int_small)
  have ud': "luaL_checkudata w (Suc 0) UD_FUNCTION = Return (Ud_function addr info) w0"
    using ud by simp
  show ?thesis
    by (simp add: function_call_def bnd_def ud' fr nf th lgi_error_def lua_pushstring_def
          lua_pushboolean_def lua_pushinteger_def lua_push_def r)
qed

theorem native_error_short_circuits_witness:
  "results (function_call no_conv ex_failing_native ex_junk ex_parse_world) =
     Some [LBoolean False, LString ''bad input'', LNumber 7]"
proof -
  let ?args = "[ex_junk 0,
                (ex_junk 1)\<lparr>a_arg := GArg v_int (CInt 5),
                             a_ai := GIArgInfo GI_DIRECTION_INOUT False False False
                                       (GITypeInfo GI_TYPE_TAG_INT None),
                             a_ti := GITypeInfo GI_TYPE_TAG_INT None,
                             a_dir := Some GI_DIRECTION_INOUT\<rparr>,
                (ex_junk 2)\<lparr>a_arg := GArg v_float (CReal 2),
                             a_ai := GIArgInfo GI_DIRECTION_IN False False False
                                       (GITypeInfo GI_TYPE_TAG_FLOAT None),
                             a_ti := GITypeInfo GI_TYPE_TAG_FLOAT None,
                             a_dir := Some GI_DIRECTION_IN\<rparr>,
                (ex_junk 3)\<lparr>a_arg := GArg v_pointer (CPtr ErrVar 0)\<rparr>]"
  have ud: "luaL_checkudata ex_parse_world 1 UD_FUNCTION =
              Return (Ud_function (Abs, 4096) ex_parse) ex_parse_world"
    by (simp add: luaL_checkudata_def lua_index_def ex_parse_world_def UD_FUNCTION_def)
  have fr: "build_frame no_conv ex_junk ex_parse ex_parse_world = Return ?args ex_parse_world"
    by (simp add: build_frame_def ex_parse_def ex_parse_world_def marshal_defs member_defs
          Let_def trunc_def in_range_def wrap_int_def round_int_small upt_rec numeral_eq_Suc)
  have th: "fn_throws (bi_data ex_parse)" by (simp add: ex_parse_def)
  have nf: "ex_failing_native (Abs, 4096) (map a_arg (tl ?args)) (mem ex_parse_world) =
              (GArg v_boolean (CInt 0),
               (mem ex_parse_world)((Abs, 8192) := GArg v_int (CInt 9)),
               Some \<lparr>message = ''bad input'', code = 7\<rparr>)"
    by (simp add: ex_failing_native_def)
  have cd: "in_range 32 True (code \<lparr>message = ''bad input'', code = 7\<rparr>)"
    by (simp add: in_range_def)
  show ?thesis
    using native_error_short_circuits [where nat_fn = ex_failing_native, OF ud fr th nf cd]
    by (simp add: results_def c_str_def)
qed

text \<open>The first loop leaves the elements before its start alone and ends after the last parameter.\<close>

lemma marshal_in_frame:
  "marshal_in cv ais k l args w = Return r w' \<Longrightarrow>
     fst r = k + length ais \<and> length (snd r) = length args \<and> (\<forall>j<k. snd r ! j = args ! j)"
proof (induction ais arbitrary: k l args w)
  case Nil
  then show ?case by auto
next
  case (Cons ai ais)
  from Cons.prems show ?case
    by (auto simp add: bnd_def Let_def split: if_splits outcome.splits option.splits
          dest!: Cons.IH)
qed

subsection \<open>Identity of wrappers\<close>

text \<open>
  Claim C2. Marshaling one non-null native address twice should give the same wrapper.
  \<^verbatim>\<open>struct_new\<close> looks the address up in the cache but never stores the wrapper it
  creates (it leaves the cache as it finds it): asked twice for the \<^verbatim>\<open>Point\<close> at address 4096, it leaves two userdata
  blocks on the stack, both wrapping that address.
\<close>

lemma struct_new_keeps_cache: "cache (world_of (struct_new w info addr nf)) = cache w"
  by (simp add: struct_new_def bnd_def lgi_get_cached_def world_of_def lua_push_def Let_def
        split: option.splits)

theorem struct_new_twice_two_wrappers:
  "stack (world_of (struct_new_twice empty_world ex_point (Abs, 4096))) =
     [LUserdata 0, LUserdata 1] \<and>
   heap (world_of (struct_new_twice empty_world ex_point (Abs, 4096))) 0 =
     Some \<lparr>ud_meta = UD_STRUCT, ud_body = Ud_struct ex_point (Abs, 4096) 0\<rparr> \<and>
   heap (world_of (struct_new_twice empty_world ex_point (Abs, 4096))) 1 =
     Some \<lparr>ud_meta = UD_STRUCT, ud_body = Ud_struct ex_point (Abs, 4096) 0\<rparr>"
  by (simp add: struct_new_twice_def struct_new_def bnd_def lgi_get_cached_def empty_world_def
        NULL_def world_of_def lua_push_def Let_def)

subsection \<open>Round trips\<close>

lemma wrap_signed_unsigned:
  assumes "- (2 ^ 63) \<le> n" "n < 2 ^ 63"
  shows "((n mod 2 ^ 64 + 2 ^ 63) mod 2 ^ 64 - 2 ^ 63 :: int) = n"
proof -
  have "(n mod 2 ^ 64 + 2 ^ 63) mod 2 ^ 64 = (n + 2 ^ 63) mod (2 ^ 64 :: int)"
    by (rule mod_add_left_eq)
  also have "\<dots> = n + 2 ^ 63" using assms by simp
  finally show ?thesis by simp
qed

lemma c_str_id: "CHR 0x00 \<notin> set s \<Longrightarrow> c_str s = s"
  by (auto simp add: c_str_def)

lemma wrap_signed_unsigned_num:
  "- 9223372036854775808 \<le> n \<Longrightarrow> n < 9223372036854775808 \<Longrightarrow>
     ((n mod 18446744073709551616 + 9223372036854775808) mod 18446744073709551616
        - 9223372036854775808 :: int) = n"
  using wrap_signed_unsigned [of n] by simp

lemma round_int_int64_max: "round_int 53 9223372036854775807 = 9223372036854775808"
  by (simp add: round_int_def bits.simps Let_def)

text \<open>
  Claim C3, as stated: every representative native value of every scalar tag comes back
  unchanged from a conversion to Lua and back. Two values that do not: the double 3/2,
  which the rows for \<^verbatim>\<open>FLOAT\<close> and \<^verbatim>\<open>DOUBLE\<close> push with \<^verbatim>\<open>lua_pushinteger\<close> and fetch
  with \<^verbatim>\<open>luaL_checkinteger\<close>, comes back as 1; and the largest \<^verbatim>\<open>gint64\<close>, pushed as
  a Lua number, becomes \<open>2 ^ 63\<close>, which no \<^verbatim>\<open>gint64\<close> holds.
\<close>

theorem round_trip_not_exact:
  "value_of (round_trip no_conv ex_double (GArg v_double (CReal (3 / 2)))) =
     Some (1, GArg v_double (CReal 1)) \<and>
   value_of (round_trip no_conv ex_int64 (GArg v_int64 (CInt 9223372036854775807))) = None"
  by (simp add: value_of_def round_trip_def ex_double_def ex_int64_def marshal_defs member_defs
       empty_world_def trunc_three_halves trunc_one in_range_def round_int_small wrap_int_def
       Let_def round_int_int64_max trunc_of_int [of 9223372036854775808, simplified])

text \<open>
  Claim C3, amended: for every scalar tag other than \<^verbatim>\<open>FLOAT\<close> and \<^verbatim>\<open>DOUBLE\<close>, a
  native value that is true or false, an integer of the width of the tag and of magnitude
  below \<open>2 ^ 53\<close>, or a string without NUL, comes back unchanged from a conversion to
  Lua and back.
\<close>

theorem round_trip_exact:
  assumes "representable tag val"
  shows "value_of (round_trip cv (GITypeInfo tag iface) val) = Some (1, val)"
proof (cases "from_lua_case tag")
  case None
  with assms show ?thesis by (simp add: representable_def)
next
  case (Some t)
  obtain ty m chk where t: "t = (ty, m, chk)" by (cases t)
  from assms Some t obtain v where val: "val = GArg m v"
    by (auto simp add: representable_def split: GArgument.splits)
  show ?thesis
  proof (cases m)
    case (C_int w sg)
    from assms Some t val C_int obtain n where
      v: "v = CInt n" and r: "in_range w sg n" and s: "\<bar>n\<bar> < 2 ^ 53"
      and b: "tag = GI_TYPE_TAG_BOOLEAN \<longrightarrow> n = 0 \<or> n = 1"
      by (auto simp add: representable_def split: cval.splits)
    have ri: "round_int 53 n = n" using s by (rule round_int_small)
    from s have s': "- 9007199254740992 < n" "n < 9007199254740992" by (simp_all add: abs_less_iff)
    show ?thesis
      using Some t C_int r b s'
      by (cases tag)
         (auto simp add: from_lua_case_def val v value_of_def round_trip_def marshal_defs
            member_defs empty_world_def ri trunc_of_int in_range_def wrap_int_def
            lua_toboolean_def wrap_signed_unsigned_num)
  next
    case C_pointer
    from assms Some t val C_pointer obtain s where
      v: "v = CPtr (Str s) 0" and z: "CHR 0x00 \<notin> set s"
      by (auto simp add: representable_def split: cval.splits region.splits)
    show ?thesis
      using Some t C_pointer
      by (cases tag)
         (auto simp add: from_lua_case_def val v value_of_def round_trip_def marshal_defs
            member_defs empty_world_def lua_pushstring_def luaL_checkstring_def ptr_val_def
            c_str_id [OF z])
  next
    case C_float
    with assms Some t val show ?thesis
      by (auto simp add: representable_def split: cval.splits)
  next
    case C_double
    with assms Some t val show ?thesis
      by (auto simp add: representable_def split: cval.splits)
  qed
qed

theorem round_trip_exact_witness:
  "representable GI_TYPE_TAG_INT8 (GArg v_int8 (CInt (- 128))) \<and>
   value_of (round_trip no_conv (GITypeInfo GI_TYPE_TAG_INT8 None) (GArg v_int8 (CInt (- 128)))) =
     Some (1, GArg v_int8 (CInt (- 128))) \<and>
   value_of (round_trip no_conv (GITypeInfo GI_TYPE_TAG_UINT32 None)
               (GArg v_uint32 (CInt 4294967295))) =
     Some (1, GArg v_uint32 (CInt 4294967295)) \<and>
   value_of (round_trip no_conv (GITypeInfo GI_TYPE_TAG_BOOLEAN None) (GArg v_boolean (CInt 1))) =
     Some (1, GArg v_boolean (CInt 1)) \<and>
   value_of (round_trip no_conv (GITypeInfo GI_TYPE_TAG_UTF8 None)
               (GArg v_pointer (CPtr (Str [CHR 0xC3, CHR 0xA9]) 0))) =
     Some (1, GArg v_pointer (CPtr (Str [CHR 0xC3, CHR 0xA9]) 0)) \<and>
   value_of (round_trip no_conv (GITypeInfo GI_TYPE_TAG_UTF8 None)
               (GArg v_pointer (CPtr (Str []) 0))) =
     Some (1, GArg v_pointer (CPtr (Str []) 0))"
proof -
  have r1: "representable GI_TYPE_TAG_INT8 (GArg v_int8 (CInt (- 128)))"
    by (simp add: representable_def from_lua_case_def member_defs in_range_def)
  have r2: "representable GI_TYPE_TAG_UINT32 (GArg v_uint32 (CInt 4294967295))"
    by (simp add: representable_def from_lua_case_def member_defs in_range_def)
  have r3: "representable GI_TYPE_TAG_BOOLEAN (GArg v_boolean (CInt 1))"
    by (simp add: representable_def from_lua_case_def member_defs in_range_def)
  have r4: "representable GI_TYPE_TAG_UTF8 (GArg v_pointer (CPtr (Str [CHR 0xC3, CHR 0xA9]) 0))"
    by (simp add: representable_def from_lua_case_def member_defs)
  have r5: "representable GI_TYPE_TAG_UTF8 (GArg v_pointer (CPtr (Str []) 0))"
    by (simp add: representable_def from_lua_case_def member_defs)
  show ?thesis
    using r1 round_trip_exact [OF r1] round_trip_exact [OF r2] round_trip_exact [OF r3]
          round_trip_exact [OF r4] round_trip_exact [OF r5]
    by simp
qed

subsection \<open>Unhandled tags\<close>

text \<open>
  Claim C4, as stated: both conversions fail with a hard error on a tag they do not
  handle. They do not: on \<^verbatim>\<open>ARRAY\<close> neither fails, and a call of a function with an
  \<^verbatim>\<open>ARRAY\<close> parameter runs to its end.
\<close>

theorem unhandled_tag_no_error:
  "\<not> failed (lgi_val_to_lua empty_world ex_array Indeterminate) \<and>
   \<not> failed (lgi_val_from_lua no_conv empty_world 1 ex_array Indeterminate False) \<and>
   results (function_call no_conv ex_native ex_junk ex_take_world) = Some []"
  by (simp add: failed_def ex_array_def function_call_def build_frame_def results_def
       luaL_checkudata_def ex_take_world_def ex_take_def UD_FUNCTION_def ex_native_def
       ex_junk_def marshal_defs Let_def)

text \<open>
  Claim C4, amended: on a tag they do not handle (one of the seven tags without a row in
  either table, or an interface that is neither an enumeration nor a structure) both
  conversions report zero values converted, raise nothing and leave the Lua state and
  the slot as they were.
\<close>

theorem unhandled_tag_converts_nothing:
  assumes "ti_tag ti \<in> {GI_TYPE_TAG_VOID, GI_TYPE_TAG_TIME_T, GI_TYPE_TAG_ARRAY,
                        GI_TYPE_TAG_GLIST, GI_TYPE_TAG_GSLIST, GI_TYPE_TAG_GHASH,
                        GI_TYPE_TAG_ERROR} \<or>
           (ti_tag ti = GI_TYPE_TAG_INTERFACE \<and>
            (\<exists>ii. ti_interface ti = Some ii \<and>
                  g_base_info_get_type ii \<noteq> GI_INFO_TYPE_ENUM \<and>
                  g_base_info_get_type ii \<noteq> GI_INFO_TYPE_STRUCT))"
  shows "lgi_val_to_lua w ti val = Return 0 w \<and>
         lgi_val_from_lua cv w index ti val optional = Return (0, val) w"
  using assms
proof (elim disjE conjE exE)
  assume "ti_tag ti \<in> {GI_TYPE_TAG_VOID, GI_TYPE_TAG_TIME_T, GI_TYPE_TAG_ARRAY,
                        GI_TYPE_TAG_GLIST, GI_TYPE_TAG_GSLIST, GI_TYPE_TAG_GHASH,
                        GI_TYPE_TAG_ERROR}"
  then show ?thesis
    by (auto simp add: lgi_val_to_lua_def lgi_simple_val_to_lua_def to_lua_case_def bnd_def
          lgi_val_from_lua_def from_lua_case_def)
next
  fix ii
  assume "ti_tag ti = GI_TYPE_TAG_INTERFACE" "ti_interface ti = Some ii"
    "g_base_info_get_type ii \<noteq> GI_INFO_TYPE_ENUM"
    "g_base_info_get_type ii \<noteq> GI_INFO_TYPE_STRUCT"
  then show ?thesis
    by (cases "g_base_info_get_type ii")
       (simp_all add: lgi_val_to_lua_def lgi_simple_val_to_lua_def to_lua_case_def bnd_def
          lgi_val_from_lua_def from_lua_case_def)
qed

theorem unhandled_tag_converts_nothing_witness:
  "ti_tag ex_array = GI_TYPE_TAG_ARRAY \<and>
   lgi_val_to_lua empty_world ex_array (GArg v_int (CInt 3)) = Return 0 empty_world \<and>
   lgi_val_from_lua no_conv empty_world 1 ex_array (GArg v_int (CInt 3)) True =
     Return (0, GArg v_int (CInt 3)) empty_world \<and>
   lgi_val_to_lua empty_world (GITypeInfo GI_TYPE_TAG_INTERFACE (Some ex_object))
     (GArg v_pointer (CPtr Abs 4096)) = Return 0 empty_world"
proof -
  have k: "g_base_info_get_type ex_object = GI_INFO_TYPE_OBJECT"
    by (simp add: ex_object_def g_base_info_get_type_def)
  show ?thesis
    using unhandled_tag_converts_nothing
            [of ex_array empty_world "GArg v_int (CInt 3)" no_conv 1 True]
          unhandled_tag_converts_nothing
            [of "GITypeInfo GI_TYPE_TAG_INTERFACE (Some ex_object)" empty_world
                "GArg v_pointer (CPtr Abs 4096)" no_conv 1 True]
    by (simp add: ex_array_def k)
qed

subsection \<open>Field access\<close>

text \<open>
  Claim C6. Reading a field should marshal the bytes at the address of the structure plus
  the offset of the field, so that a value stored in \<^verbatim>\<open>x\<close> is the value read from
  \<^verbatim>\<open>x\<close>. \<^verbatim>\<open>struct_load_field\<close> never hands that address to its caller, which reads and
  writes through a pointer it did not initialise. For a \<^verbatim>\<open>Point\<close> at 4096 with
  \<^verbatim>\<open>x\<close> = 1, when that pointer happens to be 8192: reading \<^verbatim>\<open>x\<close> gives the 7 found at
  8192, and storing 5 in \<^verbatim>\<open>x\<close> changes the cell at 8192 and leaves \<^verbatim>\<open>x\<close> at 1.
\<close>

lemma struct_load_field_ignores_addr:
  "struct_load_field w info addr name flag = struct_load_field w info addr' name flag"
  unfolding struct_load_field_def Let_def by (rule refl)

theorem struct_field_access_elsewhere:
  "results (struct_index no_conv (Abs, 8192) ex_point_world) = Some [LNumber 7] \<and>
   mem (world_of (struct_newindex no_conv (Abs, 8192) ex_point_world)) (Abs, 4096) =
     GArg v_int32 (CInt 1) \<and>
   mem (world_of (struct_newindex no_conv (Abs, 8192) ex_point_world)) (Abs, 8192) =
     GArg v_int32 (CInt 5)"
  by (simp add: struct_index_def struct_newindex_def struct_load_field_def results_def
       world_of_def luaL_checkudata_def luaL_checkstring_def
       ex_point_world_def ex_point_def ex_int32_def UD_STRUCT_def c_string_def c_str_def
       g_struct_info_get_fields_def has_flag_def marshal_defs member_defs Let_def
       round_int_small wrap_int_def trunc_def in_range_def)

lemma luaL_checkudata_same: "luaL_checkudata w i t = Return u w' \<Longrightarrow> w' = w"
  by (auto simp add: luaL_checkudata_def luaL_typerror_def
        split: option.splits lua_value.splits if_splits)











subsection \<open>Resolution failures\<close>

text \<open>
  Claim C8. A container that does not resolve should give a reported lookup failure.
  \<^verbatim>\<open>lgi_find\<close> of \<^verbatim>\<open>lgi.c\<close> asks for the type of the container's descriptor without
  checking that the lookup found one: for \<^verbatim>\<open>find ('Test', 'Nope', 'foo')\<close> it
  dereferences a null descriptor. (\<^verbatim>\<open>lgi_find\<close> of \<^verbatim>\<open>core.c\<close> has the check.)
\<close>

theorem lgi_find_unknown_container_null_deref:
  "lgi_find no_conv ex_repo ex_find_world = Throw (Undefined ''null descriptor'') ex_find_world"
  by (simp add: lgi_find_def check_c_string_def opt_c_string_def luaL_optstring_def
       luaL_checkstring_def bnd_def lua_index_def lua_isnoneornil_def ex_find_world_def
       empty_world_def ex_repo_def c_string_def c_str_def)


subsection \<open>Instantiation\<close>

text \<open>
  What \<^verbatim>\<open>lgi_get\<close> of \<^verbatim>\<open>lgi.c\<close> does on the handle of a descriptor, kind by kind, and
  how \<^verbatim>\<open>lgi_get\<close> of \<^verbatim>\<open>core.c\<close> dispatches.
\<close>

lemma lgi_get_other:
  assumes h: "luaL_checkudata w 1 UD_STRUCT = Return (Ud_struct hinfo (Info ii, 0) hsz) w1"
      and ns: "bi_namespace hinfo = ''GIRepository''" and nm: "bi_name hinfo = ''IBaseInfo''"
      and k: "g_base_info_get_type ii \<noteq> GI_INFO_TYPE_FUNCTION"
             "g_base_info_get_type ii \<noteq> GI_INFO_TYPE_STRUCT"
             "g_base_info_get_type ii \<noteq> GI_INFO_TYPE_CONSTANT"
  shows "lgi_get w = Return 0 w1"
proof -
  have h': "luaL_checkudata w (Suc 0) UD_STRUCT = Return (Ud_struct hinfo (Info ii, 0) hsz) w1"
    using h by simp
  show ?thesis using k
    by (cases "g_base_info_get_type ii")
       (simp_all add: lgi_get_def bnd_def h' ns nm info_at_def lgi_type_new_def)
qed

lemma lgi_get_function:
  assumes h: "luaL_checkudata w 1 UD_STRUCT = Return (Ud_struct hinfo (Info ii, 0) hsz) w1"
      and ns: "bi_namespace hinfo = ''GIRepository''" and nm: "bi_name hinfo = ''IBaseInfo''"
      and d: "bi_data ii = FunctionData m c t as r (Inr a)"
      and miss: "cache w1 (Abs, a) = None \<or> cache w1 (Abs, a) = Some LNil"
  shows "lgi_get w =
           Return 1 (w1\<lparr>heap := (heap w1)(next_ud w1 \<mapsto>
                             \<lparr>ud_meta = UD_FUNCTION, ud_body = Ud_function (Abs, a) ii\<rparr>),
                         next_ud := Suc (next_ud w1),
                         stack := stack w1 @ [LUserdata (next_ud w1)],
                         cache := (cache w1)((Abs, a) \<mapsto> LUserdata (next_ud w1))\<rparr>)"
proof -
  have h': "luaL_checkudata w (Suc 0) UD_STRUCT = Return (Ud_struct hinfo (Info ii, 0) hsz) w1"
    using h by simp
  show ?thesis
    using miss
    by (auto simp add: lgi_get_def bnd_def h' ns nm info_at_def lgi_type_new_def
          g_base_info_get_type_def d function_new_def lgi_get_cached_def lgi_set_cached_def
          lua_push_def Let_def)
qed

lemma lgi_get_function_cached:
  assumes h: "luaL_checkudata w 1 UD_STRUCT = Return (Ud_struct hinfo (Info ii, 0) hsz) w1"
      and ns: "bi_namespace hinfo = ''GIRepository''" and nm: "bi_name hinfo = ''IBaseInfo''"
      and d: "bi_data ii = FunctionData m c t as r (Inr a)"
      and hit: "cache w1 (Abs, a) = Some x" "x \<noteq> LNil"
  shows "lgi_get w =
           Return 1 (w1\<lparr>heap := (heap w1)(next_ud w1 \<mapsto>
                             \<lparr>ud_meta = UD_FUNCTION, ud_body = Ud_function (Abs, a) ii\<rparr>),
                         next_ud := Suc (next_ud w1),
                         stack := stack w1 @ [x]\<rparr>)"
proof -
  have h': "luaL_checkudata w (Suc 0) UD_STRUCT = Return (Ud_struct hinfo (Info ii, 0) hsz) w1"
    using h by simp
  show ?thesis
    by (simp add: lgi_get_def bnd_def h' ns nm info_at_def lgi_type_new_def
          g_base_info_get_type_def d function_new_def lgi_get_cached_def hit
          lua_push_def lua_replace_2_def butlast_append list_update_append Let_def)
qed

lemma lgi_get_function_fails:
  assumes h: "luaL_checkudata w 1 UD_STRUCT = Return (Ud_struct hinfo (Info ii, 0) hsz) w1"
      and ns: "bi_namespace hinfo = ''GIRepository''" and nm: "bi_name hinfo = ''IBaseInfo''"
      and d: "bi_data ii = FunctionData m c t as r (Inl e)"
  shows "failure_of (lgi_get w) = Some (LuaError (fst e @ '' ('' @ fmt_d (snd e) @ '')''))"
proof -
  have h': "luaL_checkudata w (Suc 0) UD_STRUCT = Return (Ud_struct hinfo (Info ii, 0) hsz) w1"
    using h by simp
  show ?thesis
    by (simp add: lgi_get_def bnd_def h' ns nm info_at_def lgi_type_new_def
          g_base_info_get_type_def d function_new_def lgi_throw_def failure_of_def Let_def)
qed

lemma lgi_get_struct:
  assumes h: "luaL_checkudata w 1 UD_STRUCT = Return (Ud_struct hinfo (Info ii, 0) hsz) w1"
      and ns: "bi_namespace hinfo = ''GIRepository''" and nm: "bi_name hinfo = ''IBaseInfo''"
      and d: "bi_data ii = StructData sz fs ms"
      and miss: "cache w1 NULL = None \<or> cache w1 NULL = Some LNil"
  shows "lgi_get w =
           Return 1 (w1\<lparr>heap := (heap w1)(next_ud w1 \<mapsto>
                             \<lparr>ud_meta = UD_STRUCT,
                              ud_body = Ud_struct ii (UdData (next_ud w1), 0) sz\<rparr>),
                         next_ud := Suc (next_ud w1),
                         stack := stack w1 @ [LUserdata (next_ud w1)]\<rparr>)"
proof -
  have h': "luaL_checkudata w (Suc 0) UD_STRUCT = Return (Ud_struct hinfo (Info ii, 0) hsz) w1"
    using h by simp
  show ?thesis
    using miss
    by (auto simp add: lgi_get_def bnd_def h' ns nm info_at_def lgi_type_new_def
          g_base_info_get_type_def d struct_new_def lgi_get_cached_def g_struct_info_get_size_def
          lua_push_def Let_def)
qed

lemma lgi_get_constant:
  assumes h: "luaL_checkudata w 1 UD_STRUCT = Return (Ud_struct hinfo (Info ii, 0) hsz) w1"
      and ns: "bi_namespace hinfo = ''GIRepository''" and nm: "bi_name hinfo = ''IBaseInfo''"
      and d: "bi_data ii = ConstantData ti v"
  shows "lgi_get w = lgi_val_to_lua w1 ti v"
proof -
  have h': "luaL_checkudata w (Suc 0) UD_STRUCT = Return (Ud_struct hinfo (Info ii, 0) hsz) w1"
    using h by simp
  show ?thesis
    by (cases "lgi_val_to_lua w1 ti v")
       (simp_all add: lgi_get_def bnd_def h' ns nm info_at_def lgi_type_new_def
          g_base_info_get_type_def d)
qed

lemma core_lgi_get_dispatch:
  assumes g: "lgi_compound_get env w 1 baseinfo False = Return (Info ii, 0) w1"
  shows "(g_base_info_get_type ii = GI_INFO_TYPE_FUNCTION \<longrightarrow>
            core_lgi_get env baseinfo w = lgi_callable_create env w1 ii) \<and>
         (g_base_info_get_type ii = GI_INFO_TYPE_STRUCT \<longrightarrow>
            core_lgi_get env baseinfo w =
              bnd (lgi_compound_struct_new env w1 ii) (\<lambda>res w2. Return 1 w2)) \<and>
         (g_base_info_get_type ii = GI_INFO_TYPE_OBJECT \<longrightarrow>
            core_lgi_get env baseinfo w =
              bnd (lgi_compound_object_new env w1 ii 2) (\<lambda>res w2. Return 1 w2)) \<and>
         (\<forall>ti v. bi_data ii = ConstantData ti v \<longrightarrow>
            core_lgi_get env baseinfo w =
              bnd (lgi_marshal_2lua env w1 ti v) (\<lambda>b w2. Return (if b then 1 else 0) w2)) \<and>
         (g_base_info_get_type ii \<notin> {GI_INFO_TYPE_FUNCTION, GI_INFO_TYPE_STRUCT,
                                       GI_INFO_TYPE_OBJECT, GI_INFO_TYPE_CONSTANT} \<longrightarrow>
            failure_of (core_lgi_get env baseinfo w) =
              Some (LuaError (''failing to create unknown type '' @
                      fmt_d (info_type_number (g_base_info_get_type ii)) @ '' ('' @
                      bi_namespace ii @ ''.'' @ bi_name ii @ '')'')))"
proof -
  have g': "lgi_compound_get env w (Suc 0) baseinfo False = Return (Info ii, 0) w1"
    using g by simp
  show ?thesis
    by (cases "g_base_info_get_type ii")
       (auto simp add: core_lgi_get_def bnd_def g' info_at_def failure_of_def Let_def
          g_base_info_get_type_def)
qed


text \<open>
  Claim C9, as stated: a structure descriptor yields an empty structure handle, and every
  kind other than function, structure and constant results in an error. The storage of
  the new handle is not cleared: where the memory it gets held 7, it still holds 7. In
  \<^verbatim>\<open>core.c\<close> an object descriptor is instantiated too and gives a value; in \<^verbatim>\<open>lgi.c\<close> a
  descriptor of another kind, here an enumeration, gives no value and no error.
\<close>

theorem instantiate_other_kinds_no_error:
  "heap (world_of (lgi_get ex_stale_world)) 1 =
     Some \<lparr>ud_meta = UD_STRUCT, ud_body = Ud_struct ex_point (UdData 1, 0) 8\<rparr> \<and>
   mem (world_of (lgi_get ex_stale_world)) (UdData 1, 0) = GArg v_int32 (CInt 7) \<and>
   \<not> failed (core_lgi_get ex_env None (ex_handle_world ex_object)) \<and>
   \<not> failed (lgi_get (ex_handle_world ex_enum)) \<and>
   results (lgi_get (ex_handle_world ex_enum)) = Some []"
  by (simp add: core_lgi_get_def lgi_get_def lgi_type_new_def bnd_def results_def failed_def
        ex_env_def ex_push_new_def luaL_checkudata_def lua_index_def ex_handle_world_def
        ex_stale_world_def ex_point_def world_of_def struct_new_def lgi_get_cached_def
        g_struct_info_get_size_def NULL_def Let_def
        ex_object_def ex_enum_def ex_ibaseinfo_def info_at_def g_base_info_get_type_def
        lua_push_def UD_STRUCT_def)

text \<open>
  Claim C9, amended. On the handle of a descriptor \<open>ii\<close>, \<^verbatim>\<open>lgi_get\<close> of \<^verbatim>\<open>lgi.c\<close>
  gives: for a function, one value, a callable handle, which is a new callable that it
  caches when the cache has none for the address of the function and the cached one
  when it has, or else the error of preparing the invoker; for a structure, when the
  cache has no entry for the null address (which \<^verbatim>\<open>struct_new\<close> looks up first), one
  value, a new wrapper whose address is its own storage of the size of the structure,
  with native memory left as it was, so that the storage is not cleared; for a
  constant, what the marshaler gives for its literal; for any other kind, no value and
  no error. \<^verbatim>\<open>lgi_get\<close> of \<^verbatim>\<open>core.c\<close> hands a function to \<^verbatim>\<open>lgi_callable_create\<close>, a
  structure to \<^verbatim>\<open>lgi_compound_struct_new\<close>, an object to \<^verbatim>\<open>lgi_compound_object_new\<close>
  and a constant to \<^verbatim>\<open>lgi_marshal_2lua\<close>, and raises an error for every other kind.
\<close>

theorem instantiate_dispatch:
  assumes h: "luaL_checkudata w 1 UD_STRUCT = Return (Ud_struct hinfo (Info ii, 0) hsz) w1"
      and ns: "bi_namespace hinfo = ''GIRepository''" and nm: "bi_name hinfo = ''IBaseInfo''"
      and g: "lgi_compound_get env cw 1 baseinfo False = Return (Info ii, 0) cw1"
  shows "(\<forall>m c t as r a. bi_data ii = FunctionData m c t as r (Inr a) \<and>
            (cache w1 (Abs, a) = None \<or> cache w1 (Abs, a) = Some LNil) \<longrightarrow>
            lgi_get w =
              Return 1 (w1\<lparr>heap := (heap w1)(next_ud w1 \<mapsto>
                                \<lparr>ud_meta = UD_FUNCTION, ud_body = Ud_function (Abs, a) ii\<rparr>),
                            next_ud := Suc (next_ud w1),
                            stack := stack w1 @ [LUserdata (next_ud w1)],
                            cache := (cache w1)((Abs, a) \<mapsto> LUserdata (next_ud w1))\<rparr>)) \<and>
         (\<forall>m c t as r a x. bi_data ii = FunctionData m c t as r (Inr a) \<and>
            cache w1 (Abs, a) = Some x \<and> x \<noteq> LNil \<longrightarrow>
            lgi_get w =
              Return 1 (w1\<lparr>heap := (heap w1)(next_ud w1 \<mapsto>
                                \<lparr>ud_meta = UD_FUNCTION, ud_body = Ud_function (Abs, a) ii\<rparr>),
                            next_ud := Suc (next_ud w1),
                            stack := stack w1 @ [x]\<rparr>)) \<and>
         (\<forall>m c t as r e. bi_data ii = FunctionData m c t as r (Inl e) \<longrightarrow>
            failure_of (lgi_get w) =
              Some (LuaError (fst e @ '' ('' @ fmt_d (snd e) @ '')''))) \<and>
         (\<forall>sz fs ms. bi_data ii = StructData sz fs ms \<and>
            (cache w1 NULL = None \<or> cache w1 NULL = Some LNil) \<longrightarrow>
            lgi_get w =
              Return 1 (w1\<lparr>heap := (heap w1)(next_ud w1 \<mapsto>
                                \<lparr>ud_meta = UD_STRUCT,
                                 ud_body = Ud_struct ii (UdData (next_ud w1), 0) sz\<rparr>),
                            next_ud := Suc (next_ud w1),
                            stack := stack w1 @ [LUserdata (next_ud w1)]\<rparr>) \<and>
            mem (world_of (lgi_get w)) = mem w1) \<and>
         (\<forall>ti v. bi_data ii = ConstantData ti v \<longrightarrow> lgi_get w = lgi_val_to_lua w1 ti v) \<and>
         (g_base_info_get_type ii \<notin> {GI_INFO_TYPE_FUNCTION, GI_INFO_TYPE_STRUCT,
                                       GI_INFO_TYPE_CONSTANT} \<longrightarrow>
            lgi_get w = Return 0 w1) \<and>
         (g_base_info_get_type ii = GI_INFO_TYPE_FUNCTION \<longrightarrow>
            core_lgi_get env baseinfo cw = lgi_callable_create env cw1 ii) \<and>
         (g_base_info_get_type ii = GI_INFO_TYPE_STRUCT \<longrightarrow>
            core_lgi_get env baseinfo cw =
              bnd (lgi_compound_struct_new env cw1 ii) (\<lambda>res w2. Return 1 w2)) \<and>
         (g_base_info_get_type ii = GI_INFO_TYPE_OBJECT \<longrightarrow>
            core_lgi_get env baseinfo cw =
              bnd (lgi_compound_object_new env cw1 ii 2) (\<lambda>res w2. Return 1 w2)) \<and>
         (\<forall>ti v. bi_data ii = ConstantData ti v \<longrightarrow>
            core_lgi_get env baseinfo cw =
              bnd (lgi_marshal_2lua env cw1 ti v) (\<lambda>b w2. Return (if b then 1 else 0) w2)) \<and>
         (g_base_info_get_type ii \<notin> {GI_INFO_TYPE_FUNCTION, GI_INFO_TYPE_STRUCT,
                                       GI_INFO_TYPE_OBJECT, GI_INFO_TYPE_CONSTANT} \<longrightarrow>
            failure_of (core_lgi_get env baseinfo cw) =
              Some (LuaError (''failing to create unknown type '' @
                      fmt_d (info_type_number (g_base_info_get_type ii)) @ '' ('' @
                      bi_namespace ii @ ''.'' @ bi_name ii @ '')'')))"
proof -
  have st: "\<And>sz fs ms. bi_data ii = StructData sz fs ms \<Longrightarrow>
              cache w1 NULL = None \<or> cache w1 NULL = Some LNil \<Longrightarrow>
              mem (world_of (lgi_get w)) = mem w1"
    using lgi_get_struct [OF h ns nm] by (simp add: world_of_def)
  show ?thesis
    using lgi_get_function [OF h ns nm] lgi_get_function_cached [OF h ns nm]
          lgi_get_function_fails [OF h ns nm] lgi_get_struct [OF h ns nm] st
          lgi_get_constant [OF h ns nm] lgi_get_other [OF h ns nm]
          core_lgi_get_dispatch [OF g]
    by (intro conjI allI impI) (blast | simp)+
qed

lemma ex_handle:
  "luaL_checkudata (ex_handle_world ii) 1 UD_STRUCT =
     Return (Ud_struct ex_ibaseinfo (Info ii, 0) 0) (ex_handle_world ii)"
  by (simp add: luaL_checkudata_def lua_index_def ex_handle_world_def)

lemma ex_env_get:
  "lgi_compound_get ex_env (ex_handle_world ii) 1 None False =
     Return (Info ii, 0) (ex_handle_world ii)"
  by (simp add: ex_env_def luaL_checkudata_def lua_index_def ex_handle_world_def bnd_def)

lemma ex_cached_handle:
  "luaL_checkudata ex_cached_world 1 UD_STRUCT =
     Return (Ud_struct ex_ibaseinfo (Info ex_bump, 0) 0) ex_cached_world"
  by (simp add: luaL_checkudata_def lua_index_def ex_cached_world_def)

lemma ex_cached_env_get:
  "lgi_compound_get ex_env ex_cached_world 1 None False =
     Return (Info ex_bump, 0) ex_cached_world"
  by (simp add: ex_env_def luaL_checkudata_def lua_index_def ex_cached_world_def bnd_def)

lemma ex_ibaseinfo_names:
  "bi_namespace ex_ibaseinfo = ''GIRepository''" "bi_name ex_ibaseinfo = ''IBaseInfo''"
  by (simp_all add: ex_ibaseinfo_def)

theorem instantiate_dispatch_witness:
  "results (lgi_get (ex_handle_world ex_bump)) = Some [LUserdata 1] \<and>
   results (lgi_get ex_cached_world) = Some [LUserdata 0] \<and>
   results (lgi_get (ex_handle_world ex_point)) = Some [LUserdata 1] \<and>
   heap (world_of (lgi_get (ex_handle_world ex_point))) 1 =
     Some \<lparr>ud_meta = UD_STRUCT, ud_body = Ud_struct ex_point (UdData 1, 0) 8\<rparr> \<and>
   results (lgi_get (ex_handle_world ex_const)) = Some [LNumber 42] \<and>
   results (core_lgi_get ex_env None (ex_handle_world ex_object)) = Some [LUserdata 1] \<and>
   failure_of (core_lgi_get ex_env None (ex_handle_world ex_enum)) =
     Some (LuaError ''failing to create unknown type 5 (Test.Color)'')"
proof -
  note d = instantiate_dispatch [OF ex_handle ex_ibaseinfo_names ex_env_get]
  note dc = instantiate_dispatch [OF ex_cached_handle ex_ibaseinfo_names ex_cached_env_get]
  have fdat: "bi_data ex_bump =
                FunctionData False False False
                  [GIArgInfo GI_DIRECTION_INOUT False False False (GITypeInfo GI_TYPE_TAG_INT None)]
                  (GITypeInfo GI_TYPE_TAG_VOID None) (Inr 4096) \<and>
              (cache (ex_handle_world ex_bump) (Abs, 4096) = None \<or>
               cache (ex_handle_world ex_bump) (Abs, 4096) = Some LNil)"
    by (simp add: ex_bump_def ex_handle_world_def)
  note f = d [of ex_bump, THEN conjunct1, rule_format, OF fdat]
  have hdat: "bi_data ex_bump =
                FunctionData False False False
                  [GIArgInfo GI_DIRECTION_INOUT False False False (GITypeInfo GI_TYPE_TAG_INT None)]
                  (GITypeInfo GI_TYPE_TAG_VOID None) (Inr 4096) \<and>
              cache ex_cached_world (Abs, 4096) = Some (LUserdata 0) \<and> LUserdata 0 \<noteq> LNil"
    by (simp add: ex_bump_def ex_cached_world_def)
  note fc = dc [THEN conjunct2, THEN conjunct1, rule_format, OF hdat]
  have sdat: "bi_data ex_point =
                StructData 8 [GIFieldInfo ''x'' True True 0 ex_int32,
                              GIFieldInfo ''y'' True True 4 ex_int32] [] \<and>
              (cache (ex_handle_world ex_point) NULL = None \<or>
               cache (ex_handle_world ex_point) NULL = Some LNil)"
    by (simp add: ex_point_def ex_handle_world_def)
  note s = d [of ex_point, THEN conjunct2, THEN conjunct2, THEN conjunct2, THEN conjunct1,
                rule_format, OF sdat, THEN conjunct1]
  have cdat: "bi_data ex_const = ConstantData ex_int32 (GArg v_int32 (CInt 42))"
    by (simp add: ex_const_def)
  note c = d [of ex_const, THEN conjunct2, THEN conjunct2, THEN conjunct2, THEN conjunct2,
                THEN conjunct1, rule_format, OF cdat]
  have odat: "g_base_info_get_type ex_object = GI_INFO_TYPE_OBJECT"
    by (simp add: ex_object_def g_base_info_get_type_def)
  note ob = d [of ex_object, THEN conjunct2, THEN conjunct2, THEN conjunct2, THEN conjunct2,
                 THEN conjunct2, THEN conjunct2, THEN conjunct2, THEN conjunct2,
                 THEN conjunct1, rule_format, OF odat]
  have edat: "g_base_info_get_type ex_enum \<notin> {GI_INFO_TYPE_FUNCTION, GI_INFO_TYPE_STRUCT,
                                               GI_INFO_TYPE_OBJECT, GI_INFO_TYPE_CONSTANT}"
    by (simp add: ex_enum_def g_base_info_get_type_def)
  note en = d [of ex_enum, THEN conjunct2, THEN conjunct2, THEN conjunct2, THEN conjunct2,
                 THEN conjunct2, THEN conjunct2, THEN conjunct2, THEN conjunct2,
                 THEN conjunct2, THEN conjunct2, rule_format, OF edat]
  have e: "failure_of (core_lgi_get ex_env None (ex_handle_world ex_enum)) =
             Some (LuaError ''failing to create unknown type 5 (Test.Color)'')"
    using en
    by (simp add: ex_enum_def g_base_info_get_type_def info_type_number_def fmt_d_def
          dec_digits.simps)
  show ?thesis
    unfolding f fc s c ob e
    by (simp add: results_def world_of_def ex_handle_world_def ex_cached_world_def ex_env_def
          ex_push_new_def bnd_def lua_push_def ex_int32_def marshal_defs member_defs
          wrap_int_def round_int_small)
qed


subsection \<open>The receiver of a method\<close>

text \<open>
  The frame of a method does not depend on the value the caller passed as the receiver:
  every step of the input phase reads the stack from index 3 on and otherwise only
  pushes, so it commutes with a change of the value at index 2.
\<close>

lemma sr_simps [simp]:
  "stack (set_receiver v w) = (stack w)[1 := v]" "heap (set_receiver v w) = heap w"
  "cache (set_receiver v w) = cache w" "mem (set_receiver v w) = mem w"
  "next_ud (set_receiver v w) = next_ud w"
  by (simp_all add: set_receiver_def)

lemma map_world_simps [simp]:
  "map_world f (Return a w) = Return a (f w)" "map_world f (Throw e w) = Throw e (f w)"
  by (simp_all add: map_world_def)

lemma grows_simps [simp]:
  "grows w (Return a w1) = (length (stack w) \<le> length (stack w1))" "grows w (Throw e w1)"
  by (simp_all add: grows_def)

lemma bnd_simps [simp]:
  "bnd (Return a w) f = f a w" "bnd (Throw e w) f = Throw e w"
  by (simp_all add: bnd_def)

lemma lua_index_sr: "3 \<le> i \<Longrightarrow> lua_index (set_receiver v w) i = lua_index w i"
  by (simp add: lua_index_def)

lemma luaL_typerror_sr:
  "3 \<le> i \<Longrightarrow> luaL_typerror (set_receiver v w) i t = map_world (set_receiver v) (luaL_typerror w i t)"
  by (simp add: luaL_typerror_def luaL_typename_def lua_index_sr)

lemma luaL_checknumber_sr:
  "3 \<le> i \<Longrightarrow> luaL_checknumber cv (set_receiver v w) i =
      map_world (set_receiver v) (luaL_checknumber cv w i)"
  by (simp add: luaL_checknumber_def lua_index_sr luaL_typerror_sr
        split: option.splits lua_value.splits)

lemma luaL_checknumber_len:
  "luaL_checknumber cv w i = Return d w1 \<Longrightarrow> w1 = w"
  by (auto simp add: luaL_checknumber_def luaL_typerror_def split: option.splits lua_value.splits)

lemma luaL_checkinteger_sr:
  "3 \<le> i \<Longrightarrow> luaL_checkinteger cv (set_receiver v w) i =
      map_world (set_receiver v) (luaL_checkinteger cv w i)"
  by (cases "luaL_checknumber cv w i")
     (simp_all add: luaL_checkinteger_def luaL_checknumber_sr lua_number2integer_def
        split: option.splits cval.splits)

lemma luaL_checkinteger_len:
  "luaL_checkinteger cv w i = Return d w1 \<Longrightarrow> w1 = w"
  by (cases "luaL_checknumber cv w i")
     (auto simp add: luaL_checkinteger_def lua_number2integer_def dest: luaL_checknumber_len
        split: option.splits cval.splits)

lemma set_receiver_update:
  "3 \<le> i \<Longrightarrow> set_receiver v (w\<lparr>stack := (stack w)[i - 1 := x]\<rparr>) =
     (set_receiver v w)\<lparr>stack := (stack (set_receiver v w))[i - 1 := x]\<rparr>"
  by (simp add: set_receiver_def list_update_swap)

lemma luaL_checkstring_sr:
  "3 \<le> i \<Longrightarrow> luaL_checkstring cv (set_receiver v w) i =
      map_world (set_receiver v) (luaL_checkstring cv w i)"
  apply (simp add: luaL_checkstring_def lua_index_sr luaL_typerror_sr
        split: option.splits lua_value.splits)
  apply (simp add: set_receiver_def list_update_swap)
  done

lemma luaL_checkstring_len:
  "luaL_checkstring cv w i = Return p w1 \<Longrightarrow> length (stack w1) = length (stack w)"
  by (auto simp add: luaL_checkstring_def luaL_typerror_def split: option.splits lua_value.splits)

lemma luaL_checkudata_sr:
  "3 \<le> i \<Longrightarrow> luaL_checkudata (set_receiver v w) i t =
      map_world (set_receiver v) (luaL_checkudata w i t)"
  by (simp add: luaL_checkudata_def lua_index_sr luaL_typerror_sr
        split: option.splits lua_value.splits)

lemma call_check_sr:
  "3 \<le> i \<Longrightarrow> call_check cv chk (set_receiver v w) i =
      map_world (set_receiver v) (call_check cv chk w i)"
  apply (cases chk)
     apply (simp add: call_check_def lua_toboolean_def lua_index_sr)
    apply (cases "luaL_checkinteger cv w i"; simp add: call_check_def luaL_checkinteger_sr)
   apply (cases "luaL_checknumber cv w i"; simp add: call_check_def luaL_checknumber_sr)
  apply (cases "luaL_checkstring cv w i"; simp add: call_check_def luaL_checkstring_sr)
  done

lemma call_check_len:
  "call_check cv chk w i = Return x w1 \<Longrightarrow> length (stack w1) = length (stack w)"
  apply (cases chk)
     apply (simp add: call_check_def)
     apply auto[1]
    apply (cases "luaL_checkinteger cv w i"; auto simp add: call_check_def dest: luaL_checkinteger_len)
   apply (cases "luaL_checknumber cv w i"; auto simp add: call_check_def dest: luaL_checknumber_len)
  apply (cases "luaL_checkstring cv w i"; auto simp add: call_check_def dest: luaL_checkstring_len)
  done

lemma assign_member_sr:
  "assign_member ty m x (set_receiver v w) = map_world (set_receiver v) (assign_member ty m x w)"
  by (simp add: assign_member_def split: option.splits)

lemma assign_member_len:
  "assign_member ty m x w = Return r w1 \<Longrightarrow> w1 = w"
  by (auto simp add: assign_member_def split: option.splits)

lemma lgi_val_from_lua_sr:
  assumes "3 \<le> i"
  shows "lgi_val_from_lua cv (set_receiver v w) i ti val opt =
           map_world (set_receiver v) (lgi_val_from_lua cv w i ti val opt)"
proof (cases "from_lua_case (ti_tag ti)")
  case (Some t)
  obtain ty m chk where t: "t = (ty, m, chk)" by (cases t)
  show ?thesis
    using assms Some t
    by (cases "call_check cv chk w i")
       (simp_all add: lgi_val_from_lua_def lua_isnoneornil_def lua_index_sr assign_member_sr
          call_check_sr)
next
  case None
  show ?thesis
  proof (cases "luaL_checkudata w i UD_STRUCT")
    case (Return u w1)
    then show ?thesis using assms None
      by (auto simp add: lgi_val_from_lua_def lua_isnoneornil_def lua_index_sr luaL_checkudata_sr
            split: GITypeTag.splits option.splits GIInfoType.splits udata.splits)
  next
    case (Throw e w1)
    then show ?thesis using assms None
      by (auto simp add: lgi_val_from_lua_def lua_isnoneornil_def lua_index_sr luaL_checkudata_sr
            split: GITypeTag.splits option.splits GIInfoType.splits udata.splits)
  qed
qed


lemma lgi_val_from_lua_len:
  "lgi_val_from_lua cv w i ti val opt = Return r w1 \<Longrightarrow> length (stack w1) = length (stack w)"
  apply (cases "from_lua_case (ti_tag ti)")
   apply (auto simp add: lgi_val_from_lua_def bnd_def
        split: GITypeTag.splits option.splits GIInfoType.splits udata.splits if_splits
               outcome.splits
        dest!: luaL_checkudata_same assign_member_len call_check_len)
  done

lemma lua_push_sr:
  "2 \<le> length (stack w) \<Longrightarrow> lua_push x (set_receiver v w) = set_receiver v (lua_push x w)"
  by (simp add: lua_push_def set_receiver_def list_update_append1)

lemma lgi_get_cached_sr:
  "2 \<le> length (stack w) \<Longrightarrow>
     lgi_get_cached (set_receiver v w) obj = map_world (set_receiver v) (lgi_get_cached w obj)"
  by (simp add: lgi_get_cached_def lua_push_sr split: option.splits)

lemma lgi_get_cached_grows: "grows w (lgi_get_cached w obj)"
  by (simp add: lgi_get_cached_def lua_push_def split: option.splits)

lemma sr_heap_update:
  "set_receiver v (w\<lparr>heap := h, next_ud := n\<rparr>) = (set_receiver v w)\<lparr>heap := h, next_ud := n\<rparr>"
  by (simp add: set_receiver_def)

lemma struct_new_sr:
  assumes "2 \<le> length (stack w)"
  shows "struct_new (set_receiver v w) info addr nf =
           map_world (set_receiver v) (struct_new w info addr nf)"
proof -
  have g: "grows w (lgi_get_cached w addr)" by (rule lgi_get_cached_grows)
  show ?thesis
    using assms g
    by (cases "lgi_get_cached w addr")
       (auto simp add: struct_new_def lua_push_sr lgi_get_cached_sr Let_def
          sr_heap_update [symmetric] split: option.splits)
qed

lemma struct_new_grows: "grows w (struct_new w info addr nf)"
  using lgi_get_cached_grows [of w addr]
  by (cases "lgi_get_cached w addr")
     (auto simp add: struct_new_def lua_push_def Let_def split: option.splits)

lemma function_new_sr:
  assumes a: "2 \<le> length (stack w)"
  shows "function_new (set_receiver v w) info = map_world (set_receiver v) (function_new w info)"
  using a
  by (auto simp add: function_new_def lgi_throw_def Let_def lgi_get_cached_def
        lgi_set_cached_def lua_push_def lua_replace_2_def set_receiver_def list_update_append
        butlast_append
        split: info_data.splits sum.splits option.splits)

lemma function_new_grows: "grows w (function_new w info)"
  by (auto simp add: function_new_def lgi_throw_def Let_def lgi_get_cached_def lgi_set_cached_def
        lua_push_def lua_replace_2_def bnd_def
        split: info_data.splits sum.splits option.splits list.splits)

lemma lua_pushstring_sr:
  "2 \<le> length (stack w) \<Longrightarrow>
     lua_pushstring p (set_receiver v w) = map_world (set_receiver v) (lua_pushstring p w)"
  by (simp add: lua_pushstring_def lua_push_sr split: prod.splits region.splits)

lemma call_push_sr:
  "2 \<le> length (stack w) \<Longrightarrow>
     call_push push x (set_receiver v w) = map_world (set_receiver v) (call_push push x w)"
  by (cases push)
     (auto simp add: call_push_def lua_pushboolean_def lua_pushinteger_def lua_pushnumber_def
        lua_push_sr lua_pushstring_sr lua_pushstring_def
        split: option.splits cval.splits prod.splits region.splits)

lemma call_push_grows: "grows w (call_push push x w)"
  by (cases push)
     (auto simp add: call_push_def lua_pushboolean_def lua_pushinteger_def lua_pushnumber_def
        lua_push_def lua_pushstring_def
        split: option.splits cval.splits prod.splits region.splits)

lemma lgi_simple_val_to_lua_sr:
  "2 \<le> length (stack w) \<Longrightarrow>
     lgi_simple_val_to_lua (set_receiver v w) tag val =
       map_world (set_receiver v) (lgi_simple_val_to_lua w tag val)"
  by (simp add: lgi_simple_val_to_lua_def call_push_sr split: option.splits prod.splits)

lemma lgi_simple_val_to_lua_grows: "grows w (lgi_simple_val_to_lua w tag val)"
  by (simp add: lgi_simple_val_to_lua_def call_push_grows split: option.splits prod.splits)


lemma bnd_sr:
  assumes "m' = map_world f m"
      and "\<And>a w1. m = Return a w1 \<Longrightarrow> g a (f w1) = map_world f (g a w1)"
  shows "bnd m' g = map_world f (bnd m g)"
  using assms by (cases m) simp_all

lemma bnd_grows:
  assumes "grows w m" and "\<And>a w1. m = Return a w1 \<Longrightarrow> grows w1 (g a w1)"
  shows "grows w (bnd m g)"
proof (cases m)
  case (Return a w1)
  with assms(1) have l: "length (stack w) \<le> length (stack w1)" by simp
  from assms(2) [OF Return] Return l show ?thesis
    by (cases "g a w1") simp_all
next
  case (Throw e w1)
  then show ?thesis by simp
qed

lemma struct_new_fst_sr:
  "2 \<le> length (stack w) \<Longrightarrow>
     bnd (struct_new (set_receiver v w) info addr nf) (\<lambda>r w2. Return (fst r) w2) =
       map_world (set_receiver v) (bnd (struct_new w info addr nf) (\<lambda>r w2. Return (fst r) w2))"
  by (rule bnd_sr) (simp_all add: struct_new_sr)

lemma lgi_val_to_lua_sr:
  assumes a: "2 \<le> length (stack w)"
  shows "lgi_val_to_lua (set_receiver v w) ti val =
           map_world (set_receiver v) (lgi_val_to_lua w ti val)"
  unfolding lgi_val_to_lua_def Let_def
proof (rule bnd_sr, goal_cases)
  case 1
  show ?case using a by (rule lgi_simple_val_to_lua_sr)
next
  case (2 pushed w1)
  have "grows w (lgi_simple_val_to_lua w (ti_tag ti) val)" by (rule lgi_simple_val_to_lua_grows)
  with 2 a have l: "2 \<le> length (stack w1)" by simp
  show ?case
    using l
    by (simp add: struct_new_fst_sr lgi_simple_val_to_lua_sr
          split: GITypeTag.splits option.splits GIInfoType.splits)
qed

lemma lgi_val_to_lua_grows: "grows w (lgi_val_to_lua w ti val)"
  unfolding lgi_val_to_lua_def Let_def
proof (rule bnd_grows, goal_cases)
  case 1
  show ?case by (rule lgi_simple_val_to_lua_grows)
next
  case (2 pushed w1)
  have "\<And>ii p. grows w1 (bnd (struct_new w1 ii p False) (\<lambda>r w2. Return (fst r) w2))"
    by (rule bnd_grows) (simp_all add: struct_new_grows)
  then show ?case
    by (simp add: lgi_simple_val_to_lua_grows
          split: GITypeTag.splits option.splits GIInfoType.splits)
qed

lemma lgi_type_new_sr:
  assumes a: "2 \<le> length (stack w)"
  shows "lgi_type_new (set_receiver v w) ii val =
           map_world (set_receiver v) (lgi_type_new w ii val)"
proof -
  have f: "bnd (function_new (set_receiver v w) ii) (\<lambda>vals w1. Return (vals, val) w1) =
             map_world (set_receiver v) (bnd (function_new w ii) (\<lambda>vals w1. Return (vals, val) w1))"
    by (rule bnd_sr) (simp_all add: function_new_sr a)
  have s: "bnd (struct_new (set_receiver v w) ii NULL True)
             (\<lambda>r w1. Return (fst r, case snd r of Some p \<Rightarrow> GArg v_pointer (ptr_val p)
                                               | None \<Rightarrow> val) w1) =
           map_world (set_receiver v) (bnd (struct_new w ii NULL True)
             (\<lambda>r w1. Return (fst r, case snd r of Some p \<Rightarrow> GArg v_pointer (ptr_val p)
                                               | None \<Rightarrow> val) w1))"
    by (rule bnd_sr) (simp_all add: struct_new_sr a)
  have c: "\<And>ti cval. bnd (lgi_val_to_lua (set_receiver v w) ti cval)
                          (\<lambda>vals w1. Return (vals, val) w1) =
             map_world (set_receiver v)
               (bnd (lgi_val_to_lua w ti cval) (\<lambda>vals w1. Return (vals, val) w1))"
    by (rule bnd_sr) (simp_all add: lgi_val_to_lua_sr a)
  show ?thesis
    by (simp add: lgi_type_new_def f s c split: GIInfoType.splits info_data.splits)
qed

lemma lgi_type_new_grows: "grows w (lgi_type_new w ii val)"
proof -
  have f: "grows w (bnd (function_new w ii) (\<lambda>vals w1. Return (vals, val) w1))"
    by (rule bnd_grows) (simp_all add: function_new_grows)
  have s: "grows w (bnd (struct_new w ii NULL True)
             (\<lambda>r w1. Return (fst r, case snd r of Some p \<Rightarrow> GArg v_pointer (ptr_val p)
                                               | None \<Rightarrow> val) w1))"
    by (rule bnd_grows) (simp_all add: struct_new_grows)
  have c: "\<And>ti cval. grows w (bnd (lgi_val_to_lua w ti cval) (\<lambda>vals w1. Return (vals, val) w1))"
    by (rule bnd_grows) (simp_all add: lgi_val_to_lua_grows)
  show ?thesis
    by (simp add: lgi_type_new_def f s c split: GIInfoType.splits info_data.splits)
qed

lemma marshal_in_sr:
  "2 \<le> length (stack w) \<Longrightarrow> 3 \<le> l \<Longrightarrow>
     marshal_in cv ais k l args (set_receiver v w) =
       map_world (set_receiver v) (marshal_in cv ais k l args w)"
proof (induction ais arbitrary: k l args w)
  case Nil
  show ?case by simp
next
  case (Cons ai ais)
  let ?a = "(args ! k)\<lparr>a_ai := ai, a_ti := ai_type ai, a_dir := Some (ai_direction ai)\<rparr>"
  have from_lua:
    "bnd (lgi_val_from_lua cv (set_receiver v w) l (ai_type ai) (a_arg (args ! k))
            (ai_optional ai \<or> ai_may_be_null ai))
       (\<lambda>r w1. marshal_in cv ais (k + 1) (l + fst r) (args[k := ?a\<lparr>a_arg := snd r\<rparr>]) w1) =
     map_world (set_receiver v)
       (bnd (lgi_val_from_lua cv w l (ai_type ai) (a_arg (args ! k))
               (ai_optional ai \<or> ai_may_be_null ai))
          (\<lambda>r w1. marshal_in cv ais (k + 1) (l + fst r) (args[k := ?a\<lparr>a_arg := snd r\<rparr>]) w1))"
  proof (rule bnd_sr, goal_cases)
    case 1
    show ?case using Cons.prems by (simp add: lgi_val_from_lua_sr)
  next
    case (2 r w1)
    from lgi_val_from_lua_len [OF 2] Cons.prems have "2 \<le> length (stack w1)" by simp
    moreover have "3 \<le> l + fst r" using Cons.prems by simp
    ultimately show ?case by (rule Cons.IH)
  qed
  have type_new:
    "\<And>ii. bnd (lgi_type_new (set_receiver v w) ii (a_arg (args ! k)))
             (\<lambda>r w1. marshal_in cv ais (k + 1) l (args[k := ?a\<lparr>a_arg := snd r\<rparr>]) w1) =
           map_world (set_receiver v)
             (bnd (lgi_type_new w ii (a_arg (args ! k)))
                (\<lambda>r w1. marshal_in cv ais (k + 1) l (args[k := ?a\<lparr>a_arg := snd r\<rparr>]) w1))"
  proof (rule bnd_sr, goal_cases)
    case (1 ii)
    show ?case using Cons.prems by (simp add: lgi_type_new_sr)
  next
    case (2 ii r w1)
    have "grows w (lgi_type_new w ii (a_arg (args ! k)))" by (rule lgi_type_new_grows)
    with 2 Cons.prems have "2 \<le> length (stack w1)" by simp
    then show ?case using Cons.prems(2) by (rule Cons.IH)
  qed
  show ?case
    using Cons.prems from_lua type_new
    by (simp add: Let_def Cons.IH split: option.splits)
qed

lemma build_frame_sr:
  assumes fd: "bi_data info = FunctionData True False throws ais ret sy"
      and a: "2 \<le> length (stack w)"
  shows "build_frame cv junk info (set_receiver v w) =
           map_world (set_receiver v) (build_frame cv junk info w)"
proof -
  have m: "\<And>args0 g.
      bnd (marshal_in cv ais 2 3 args0 (set_receiver v w)) (\<lambda>r w1. Return (g r) w1) =
      map_world (set_receiver v)
        (bnd (marshal_in cv ais 2 3 args0 w) (\<lambda>r w1. Return (g r) w1))"
    by (rule bnd_sr) (simp_all add: marshal_in_sr a)
  show ?thesis
    by (cases throws) (simp_all add: build_frame_def fd Let_def m)
qed

lemma frame_receiver_slot:
  assumes fd: "bi_data info = FunctionData True False throws ais ret sy"
      and fr: "build_frame cv junk info w = Return args w'"
  shows "a_arg (args ! 1) = GArg v_pointer (ptr_val NULL)"
proof -
  let ?n = "length ais + 1 + 1 + (if throws then 1 else 0)"
  let ?args0 = "map junk [0..<?n]"
  let ?args1 = "?args0[1 := (?args0 ! 1)\<lparr>a_arg := GArg v_pointer (ptr_val NULL)\<rparr>]"
  from fr fd obtain r w1 where
    mi: "marshal_in cv ais 2 3 ?args1 w = Return r w1" and
    ar: "args = (if throws
                 then (snd r)[fst r := (snd r ! fst r)\<lparr>a_arg := GArg v_pointer (CPtr ErrVar 0)\<rparr>]
                 else snd r)"
    by (auto simp add: build_frame_def bnd_def Let_def split: outcome.splits)
  from marshal_in_frame [OF mi] have
    f: "fst r = 2 + length ais" and s1: "snd r ! 1 = ?args1 ! 1"
    by auto
  have "a_arg (?args1 ! 1) = GArg v_pointer (ptr_val NULL)" by simp
  with s1 have "a_arg (snd r ! 1) = GArg v_pointer (ptr_val NULL)" by simp
  with ar f show ?thesis by (simp split: if_splits)
qed

text \<open>
  Claim C10. For a method that is no constructor: whenever the frame is built, its
  element 1 (the slot of the receiver) holds the null pointer; and when the caller passed
  a receiver, putting any other value \<open>v\<close> in its place changes neither the frame nor
  whether the input phase fails, only that value on the stack. So the receiver is
  skipped and never marshaled into the frame.
\<close>

theorem receiver_slot_is_null:
  assumes fd: "bi_data info = FunctionData True False throws ais ret sy"
  shows "(\<forall>args w'. build_frame cv junk info w = Return args w' \<longrightarrow>
            a_arg (args ! 1) = GArg v_pointer (ptr_val NULL)) \<and>
         (2 \<le> length (stack w) \<longrightarrow>
            build_frame cv junk info (set_receiver v w) =
              map_world (set_receiver v) (build_frame cv junk info w))"
  using build_frame_sr [OF fd] frame_receiver_slot [OF fd] by blast

theorem receiver_slot_is_null_witness:
  "(\<exists>args w'. build_frame no_conv ex_junk ex_touch ex_touch_world = Return args w' \<and>
              a_arg (args ! 1) = GArg v_pointer (ptr_val NULL)) \<and>
   2 \<le> length (stack ex_touch_world) \<and>
   build_frame no_conv ex_junk ex_touch (set_receiver LNil ex_touch_world) =
     map_world (set_receiver LNil) (build_frame no_conv ex_junk ex_touch ex_touch_world)"
proof -
  have fd: "bi_data ex_touch = FunctionData True False False
              [GIArgInfo GI_DIRECTION_IN False False False (GITypeInfo GI_TYPE_TAG_FLOAT None)]
              (GITypeInfo GI_TYPE_TAG_VOID None) (Inr 4096)"
    by (simp add: ex_touch_def)
  obtain args w' where
    fr: "build_frame no_conv ex_junk ex_touch ex_touch_world = Return args w'"
    by (simp add: build_frame_def ex_touch_def ex_touch_world_def marshal_defs member_defs
          Let_def trunc_def in_range_def wrap_int_def round_int_small)
  have l: "2 \<le> length (stack ex_touch_world)" by (simp add: ex_touch_world_def)
  note t = receiver_slot_is_null [OF fd, of no_conv ex_junk ex_touch_world LNil]
  from t fr l show ?thesis by blast
qed

end
